theory Spec2Isabelle
  imports Complex_Main "HOL-Library.Sublist" "HOL-Library.AList" "HOL-Library.Product_Lexorder"
begin

section \<open>Text\<close>

text \<open>
  A Python string is a sequence of code points. Where the code stores, compares and
  slices text, it is modelled as \<^typ>\<open>string\<close>, a \<^typ>\<open>char\<close> being a code point
  below 256; \<^verbatim>\<open>needle in haystack\<close> is contiguous containment, which is
  \<^const>\<open>sublist\<close>. The library functions whose result depends on the Unicode
  character database (\<^verbatim>\<open>str.upper\<close>, \<^verbatim>\<open>str.strip\<close>, \<^verbatim>\<open>int\<close>) are
  parameters of the functions that call them, as \<^verbatim>\<open>json.loads\<close> and
  \<^verbatim>\<open>strptime\<close> are, so that what is proved holds for the library as it is.

  \<^verbatim>\<open>event.action.lower()\<close> is \<open>py_lower\<close>: on code points below 256
  \<^verbatim>\<open>str.lower\<close> maps A to Z and the Latin-1 capitals U+00C0 to U+00DE, less the
  multiplication sign U+00D7, to the code point 32 above, and nothing else.
\<close>

definition lower_char :: "char \<Rightarrow> char" where
  "lower_char c =
     (let n = (of_char c :: nat)
      in if (65 \<le> n \<and> n \<le> 90) \<or> (192 \<le> n \<and> n \<le> 222 \<and> n \<noteq> 215) then char_of (n + 32)
         else c)"

definition py_lower :: "string \<Rightarrow> string" where
  "py_lower s = map lower_char s"

section \<open>collect\_fail2ban.py: labels\<close>

text \<open>
  \<^verbatim>\<open>
  def normalize_label(label: str) -> str:
      label = (label or "").upper()
      if "ATTACK" in label:
          return "malicious"
      if "UNKNOWN" in label:
          return "unknown"
      return "benign"
  \<close>
  A label is free text of the ground-truth table and may hold any character, so it is
  the list of its code points as numbers; \<open>ascii\<close> gives the code points of a
  literal. \<open>upper\<close> is \<^verbatim>\<open>str.upper\<close>. The argument is optional in the model
  because the source guards against \<^verbatim>\<open>None\<close> with \<^verbatim>\<open>label or ""\<close>.
\<close>

definition ascii :: "string \<Rightarrow> nat list" where
  "ascii s = map of_char s"

definition normalize_label :: "(nat list \<Rightarrow> nat list) \<Rightarrow> nat list option \<Rightarrow> string" where
  "normalize_label upper label =
     (let label = upper (case label of None \<Rightarrow> [] | Some s \<Rightarrow> s)
      in if sublist (ascii ''ATTACK'') label then ''malicious''
         else if sublist (ascii ''UNKNOWN'') label then ''unknown''
         else ''benign'')"

section \<open>Errors\<close>

text \<open>The Python exceptions that the modelled code can raise, as values.\<close>

datatype error =
    ValueError
  | KeyError
  | TypeError
  | AttributeError
  | JSONDecodeError
  | StatisticsError
  | ZeroDivisionError
  | CalledProcessError

section \<open>Naive datetimes\<close>

text \<open>
  A \<^verbatim>\<open>datetime.datetime\<close> without time zone: seven integer fields. The constructor
  checks the ranges and raises \<^verbatim>\<open>ValueError\<close> outside them; \<^verbatim>\<open>replace(year=...)\<close>
  goes through the constructor again. Comparison is lexicographic on the fields;
  subtraction goes through the proleptic Gregorian ordinal, and
  \<^verbatim>\<open>total_seconds()\<close> is modelled as the exact quotient by \<open>10\<^sup>6\<close>.
\<close>

record datetime =
  year :: int
  month :: int
  day :: int
  hour :: int
  minute :: int
  second :: int
  microsecond :: int

definition is_leap :: "int \<Rightarrow> bool" where
  "is_leap y = (y mod 4 = 0 \<and> (y mod 100 \<noteq> 0 \<or> y mod 400 = 0))"

definition days_in_month :: "int \<Rightarrow> int \<Rightarrow> int" where
  "days_in_month y m =
     (if m = 2 then (if is_leap y then 29 else 28)
      else if m = 4 \<or> m = 6 \<or> m = 9 \<or> m = 11 then 30 else 31)"

definition valid_datetime :: "datetime \<Rightarrow> bool" where
  "valid_datetime d =
     (1 \<le> year d \<and> year d \<le> 9999 \<and> 1 \<le> month d \<and> month d \<le> 12
      \<and> 1 \<le> day d \<and> day d \<le> days_in_month (year d) (month d)
      \<and> 0 \<le> hour d \<and> hour d \<le> 23 \<and> 0 \<le> minute d \<and> minute d \<le> 59
      \<and> 0 \<le> second d \<and> second d \<le> 59
      \<and> 0 \<le> microsecond d \<and> microsecond d \<le> 999999)"

definition datetime_new :: "int \<Rightarrow> int \<Rightarrow> int \<Rightarrow> int \<Rightarrow> int \<Rightarrow> int \<Rightarrow> int \<Rightarrow> error + datetime" where
  "datetime_new y mo d h mi s us =
     (let r = \<lparr>year = y, month = mo, day = d, hour = h, minute = mi, second = s,
                microsecond = us\<rparr>
      in if valid_datetime r then Inr r else Inl ValueError)"

definition replace_year :: "datetime \<Rightarrow> int \<Rightarrow> error + datetime" where
  "replace_year d y =
     datetime_new y (month d) (day d) (hour d) (minute d) (second d) (microsecond d)"

definition dt_key :: "datetime \<Rightarrow> int \<times> int \<times> int \<times> int \<times> int \<times> int \<times> int" where
  "dt_key d = (year d, month d, day d, hour d, minute d, second d, microsecond d)"

definition dt_less :: "datetime \<Rightarrow> datetime \<Rightarrow> bool" where
  "dt_less a b = (dt_key a < dt_key b)"

definition days_before_year :: "int \<Rightarrow> int" where
  "days_before_year y = (y - 1) * 365 + (y - 1) div 4 - (y - 1) div 100 + (y - 1) div 400"

definition days_before_month :: "int \<Rightarrow> int \<Rightarrow> int" where
  "days_before_month y m =
     (if m = 1 then 0 else if m = 2 then 31
      else (if m = 3 then 59 else if m = 4 then 90 else if m = 5 then 120
            else if m = 6 then 151 else if m = 7 then 181 else if m = 8 then 212
            else if m = 9 then 243 else if m = 10 then 273 else if m = 11 then 304
            else 334)
           + (if is_leap y then 1 else 0))"

definition toordinal :: "datetime \<Rightarrow> int" where
  "toordinal d = days_before_year (year d) + days_before_month (year d) (month d) + day d"

definition to_micros :: "datetime \<Rightarrow> int" where
  "to_micros d =
     ((toordinal d * 86400 + hour d * 3600 + minute d * 60 + second d) * 1000000
      + microsecond d)"

definition seconds_between :: "datetime \<Rightarrow> datetime \<Rightarrow> real" where
  \<comment> \<open>\<^verbatim>\<open>(a - b).total_seconds()\<close>\<close>
  "seconds_between a b = real_of_int (to_micros a - to_micros b) / 1000000"

section \<open>Library parsers\<close>

text \<open>
  Slices never raise in Python. On code points below 256, \<^verbatim>\<open>str.strip()\<close> removes
  the characters 9 to 13, 28 to 32, U+0085 and U+00A0 from both ends (\<open>py_strip\<close>).
  \<^verbatim>\<open>int(s)\<close> removes 9 to 13, 32, U+0085 and U+00A0 from both ends, but not 28 to 31,
  then reads an optional sign and decimal digits, where single underscores may separate
  digits (\<open>py_int\<close>). The functions of the source take \<^verbatim>\<open>str.strip\<close> and
  \<^verbatim>\<open>int\<close> as parameters; \<open>py_strip\<close> and \<open>py_int\<close> stand for them
  where a theorem is evaluated on a concrete line.
  \<^verbatim>\<open>strptime(s, "%H:%M:%S")\<close> accepts one or two digits per field and rejects
  values the \<^verbatim>\<open>datetime\<close> constructor refuses.
\<close>

definition slice :: "nat \<Rightarrow> nat \<Rightarrow> 'a list \<Rightarrow> 'a list" where
  "slice i j xs = take (j - i) (drop i xs)"

definition is_space :: "char \<Rightarrow> bool" where
  "is_space c =
     (let n = (of_char c :: nat)
      in (9 \<le> n \<and> n \<le> 13) \<or> (28 \<le> n \<and> n \<le> 32) \<or> n = 133 \<or> n = 160)"

definition is_int_space :: "char \<Rightarrow> bool" where
  "is_int_space c =
     (let n = (of_char c :: nat) in (9 \<le> n \<and> n \<le> 13) \<or> n = 32 \<or> n = 133 \<or> n = 160)"

definition is_digit :: "char \<Rightarrow> bool" where
  "is_digit c = (let n = (of_char c :: nat) in 48 \<le> n \<and> n \<le> 57)"

definition digit_val :: "char \<Rightarrow> int" where
  "digit_val c = int (of_char c) - 48"

definition py_strip :: "string \<Rightarrow> string" where
  "py_strip s = rev (dropWhile is_space (rev (dropWhile is_space s)))"

fun digits_ok :: "string \<Rightarrow> bool" where
  "digits_ok [] = False"
| "digits_ok [c] = is_digit c"
| "digits_ok (c # u # cs) =
     (is_digit c \<and> (if u = CHR ''_'' then digits_ok cs else digits_ok (u # cs)))"

definition digits_value :: "string \<Rightarrow> int" where
  "digits_value s = foldl (\<lambda>acc c. if c = CHR ''_'' then acc else acc * 10 + digit_val c) 0 s"

definition py_int :: "string \<Rightarrow> error + int" where
  "py_int s =
     (let t = rev (dropWhile is_int_space (rev (dropWhile is_int_space s)));
          neg = (t \<noteq> [] \<and> hd t = CHR ''-'');
          body = (if t \<noteq> [] \<and> (hd t = CHR ''-'' \<or> hd t = CHR ''+'') then tl t else t)
      in if digits_ok body then Inr (if neg then - digits_value body else digits_value body)
         else Inl ValueError)"

fun split_colon :: "string \<Rightarrow> string list" where
  "split_colon [] = [[]]"
| "split_colon (c # cs) =
     (if c = CHR '':'' then [] # split_colon cs
      else (case split_colon cs of [] \<Rightarrow> [[c]] | p # ps \<Rightarrow> (c # p) # ps))"

definition digits12 :: "string \<Rightarrow> int option" where
  "digits12 s =
     (if (length s = 1 \<or> length s = 2) \<and> list_all is_digit s then Some (digits_value s)
      else None)"

definition strptime_HMS :: "string \<Rightarrow> error + (int \<times> int \<times> int)" where
  "strptime_HMS s =
     (case split_colon s of
        [a, b, c] \<Rightarrow>
          (case (digits12 a, digits12 b, digits12 c) of
             (Some h, Some m, Some x) \<Rightarrow>
               if h \<le> 23 \<and> m \<le> 59 \<and> x \<le> 59 then Inr (h, m, x) else Inl ValueError
           | _ \<Rightarrow> Inl ValueError)
      | _ \<Rightarrow> Inl ValueError)"

section \<open>replay.py: timestamps\<close>

definition SYSLOG_MONTHS :: "(string \<times> int) list" where
  "SYSLOG_MONTHS =
     [(''Jan'', 1), (''Feb'', 2), (''Mar'', 3), (''Apr'', 4), (''May'', 5), (''Jun'', 6),
      (''Jul'', 7), (''Aug'', 8), (''Sep'', 9), (''Oct'', 10), (''Nov'', 11), (''Dec'', 12)]"

text \<open>
  \<^verbatim>\<open>
  def parse_syslog_timestamp(line, current_year, previous):
      month = line[0:3]
      if month not in SYSLOG_MONTHS:
          raise ValueError(...)
      day = int(line[4:6])
      time_fragment = line[7:15]
      ts = datetime.strptime(time_fragment, "%H:%M:%S")
      candidate = datetime(current_year, SYSLOG_MONTHS[month], day, ts.hour, ts.minute, ts.second)
      if previous:
          if candidate < previous and SYSLOG_MONTHS[month] == 1 and previous.month == 12:
              candidate = candidate.replace(year=previous.year + 1)
          elif candidate.year < previous.year:
              candidate = candidate.replace(year=previous.year)
      return candidate
  \<close>
  \<open>int_of\<close> is \<^verbatim>\<open>int\<close>.
  \<open>build_candidate\<close> is the function up to the assignment of \<^verbatim>\<open>candidate\<close>;
  the month of the candidate is \<^verbatim>\<open>SYSLOG_MONTHS[month]\<close>, which the rollover test
  reads.
\<close>

definition build_candidate :: "(string \<Rightarrow> error + int) \<Rightarrow> string \<Rightarrow> int \<Rightarrow> error + datetime" where
  "build_candidate int_of line current_year =
     (case map_of SYSLOG_MONTHS (slice 0 3 line) of
        None \<Rightarrow> Inl ValueError
      | Some m \<Rightarrow>
          (case int_of (slice 4 6 line) of
             Inl e \<Rightarrow> Inl e
           | Inr d \<Rightarrow>
               (case strptime_HMS (slice 7 15 line) of
                  Inl e \<Rightarrow> Inl e
                | Inr (h, mi, s) \<Rightarrow> datetime_new current_year m d h mi s 0)))"

definition parse_syslog_timestamp ::
  "(string \<Rightarrow> error + int) \<Rightarrow> string \<Rightarrow> int \<Rightarrow> datetime option \<Rightarrow> error + datetime" where
  "parse_syslog_timestamp int_of line current_year previous =
     (case build_candidate int_of line current_year of
        Inl e \<Rightarrow> Inl e
      | Inr candidate \<Rightarrow>
          (case previous of
             None \<Rightarrow> Inr candidate
           | Some prev \<Rightarrow>
               if dt_less candidate prev \<and> month candidate = 1 \<and> month prev = 12
               then replace_year candidate (year prev + 1)
               else if year candidate < year prev then replace_year candidate (year prev)
               else Inr candidate))"

section \<open>replay.py: the pacer\<close>

text \<open>
  What a run does to the outside world is a list of \<open>effect\<close> values, in order:
  calls to \<^verbatim>\<open>time.sleep\<close>, lines fed to the logger command, lines printed in dry-run
  mode, and the progress and final messages on the diagnostic channel (the elapsed wall
  time in the progress message is left out). The logger command is a parameter
  \<open>cmd n input\<close>: whether its \<open>n\<close>-th run, fed \<open>input\<close>, exits with status 0;
  \<^verbatim>\<open>check=True\<close> turns any other status into \<^verbatim>\<open>CalledProcessError\<close>.
  Floats are modelled as reals, and the division by a zero speed factor raises.
\<close>

datatype LogLine = LogLine (raw: string) (line_timestamp: datetime)








section \<open>collect\_fail2ban.py: loading the action log\<close>

text \<open>
  A decoded JSON value; \<open>JObj\<close> holds the items of the decoded \<^verbatim>\<open>dict\<close>.
  \<^verbatim>\<open>json.loads\<close> and \<^verbatim>\<open>datetime.strptime\<close> are library functions and are
  parameters of the loader: \<open>json_loads line\<close> is the decoded value or the error
  raised, \<open>strptime value fmt\<close> is \<open>None\<close> when the library raises
  \<^verbatim>\<open>ValueError\<close>.
\<close>

datatype json =
    JNull
  | JBool bool
  | JInt int
  | JFloat real
  | JStr string
  | JArr "json list"
  | JObj "(string \<times> json) list"

fun truthy :: "json \<Rightarrow> bool" where
  "truthy JNull = False"
| "truthy (JBool b) = b"
| "truthy (JInt i) = (i \<noteq> 0)"
| "truthy (JFloat r) = (r \<noteq> 0)"
| "truthy (JStr s) = (s \<noteq> [])"
| "truthy (JArr xs) = (xs \<noteq> [])"
| "truthy (JObj kvs) = (kvs \<noteq> [])"

fun payload_get :: "json \<Rightarrow> string \<Rightarrow> json \<Rightarrow> error + json" where
  \<comment> \<open>\<^verbatim>\<open>payload.get(key, default)\<close>; only a \<^verbatim>\<open>dict\<close> has the method\<close>
  "payload_get (JObj kvs) k dflt = Inr (case map_of kvs k of None \<Rightarrow> dflt | Some v \<Rightarrow> v)"
| "payload_get _ k dflt = Inl AttributeError"

fun payload_index :: "json \<Rightarrow> string \<Rightarrow> error + json" where
  \<comment> \<open>\<^verbatim>\<open>payload[key]\<close>\<close>
  "payload_index (JObj kvs) k = (case map_of kvs k of None \<Rightarrow> Inl KeyError | Some v \<Rightarrow> Inr v)"
| "payload_index _ k = Inl TypeError"

definition DATETIME_FORMATS :: "string list" where
  "DATETIME_FORMATS =
     [''%Y-%m-%dT%H:%M:%S.%fZ'', ''%Y-%m-%dT%H:%M:%SZ'', ''%d/%m/%Y %H:%M'',
      ''%d/%m/%Y %H:%M:%S'']"

fun parse_dt_loop :: "(string \<Rightarrow> string \<Rightarrow> datetime option) \<Rightarrow> string \<Rightarrow> string list \<Rightarrow> error + datetime" where
  "parse_dt_loop strptime v [] = Inl ValueError"
| "parse_dt_loop strptime v (fmt # fmts) =
     (case strptime v fmt of Some d \<Rightarrow> Inr d | None \<Rightarrow> parse_dt_loop strptime v fmts)"

definition parse_dt :: "(string \<Rightarrow> string \<Rightarrow> datetime option) \<Rightarrow> json \<Rightarrow> error + datetime" where
  \<comment> \<open>\<^verbatim>\<open>strptime\<close> raises \<^verbatim>\<open>TypeError\<close> on an argument that is not a string\<close>
  "parse_dt strptime v =
     (case v of JStr s \<Rightarrow> parse_dt_loop strptime s DATETIME_FORMATS | _ \<Rightarrow> Inl TypeError)"

text \<open>
  The dataclass annotates \<^verbatim>\<open>ip\<close>, \<^verbatim>\<open>action\<close> and \<^verbatim>\<open>jail\<close> as strings, but the
  loader stores whatever the payload holds, so a loaded event carries JSON values;
  \<^verbatim>\<open>None\<close> is \<open>JNull\<close>.
\<close>

record LoadedEvent =
  loaded_timestamp :: datetime
  loaded_ip :: json
  loaded_action :: json
  loaded_jail :: json
  loaded_reason :: json

definition load_event ::
  "(string \<Rightarrow> error + json) \<Rightarrow> (string \<Rightarrow> string \<Rightarrow> datetime option) \<Rightarrow> string
   \<Rightarrow> error + LoadedEvent" where
  "load_event json_loads strptime line =
     (case json_loads line of
        Inl e \<Rightarrow> Inl e
      | Inr payload \<Rightarrow>
          (case payload_get payload ''timestamp'' JNull of
             Inl e \<Rightarrow> Inl e
           | Inr t \<Rightarrow>
               (case (if truthy t then Inr t else payload_index payload ''ts'') of
                  Inl e \<Rightarrow> Inl e
                | Inr v \<Rightarrow>
                    (case parse_dt strptime v of
                       Inl e \<Rightarrow> Inl e
                     | Inr ts \<Rightarrow>
                         (case payload_index payload ''ip'' of
                            Inl e \<Rightarrow> Inl e
                          | Inr i \<Rightarrow>
                              (case payload_get payload ''action'' (JStr ''ban'') of
                                 Inl e \<Rightarrow> Inl e
                               | Inr a \<Rightarrow>
                                   (case payload_get payload ''jail'' (JStr ''ssh-proxmox'') of
                                      Inl e \<Rightarrow> Inl e
                                    | Inr j \<Rightarrow>
                                        (case payload_get payload ''reason'' JNull of
                                           Inl e \<Rightarrow> Inl e
                                         | Inr r \<Rightarrow>
                                             Inr \<lparr>loaded_timestamp = ts, loaded_ip = i,
                                                  loaded_action = a, loaded_jail = j,
                                                  loaded_reason = r\<rparr>))))))))"

text \<open>
  The file is the list of its lines; \<open>events\<close> is the accumulator of the loop and
  \<open>strip\<close> is \<^verbatim>\<open>str.strip\<close>.
\<close>

fun load_actions_loop ::
  "(string \<Rightarrow> error + json) \<Rightarrow> (string \<Rightarrow> string \<Rightarrow> datetime option) \<Rightarrow> (string \<Rightarrow> string)
   \<Rightarrow> string list \<Rightarrow> LoadedEvent list \<Rightarrow> error + LoadedEvent list" where
  "load_actions_loop json_loads strptime strip [] events = Inr events"
| "load_actions_loop json_loads strptime strip (line # rest) events =
     (if strip line = [] then load_actions_loop json_loads strptime strip rest events
      else (case load_event json_loads strptime line of
              Inl e \<Rightarrow> Inl e
            | Inr ev \<Rightarrow> load_actions_loop json_loads strptime strip rest (events @ [ev])))"

definition load_actions ::
  "(string \<Rightarrow> error + json) \<Rightarrow> (string \<Rightarrow> string \<Rightarrow> datetime option) \<Rightarrow> (string \<Rightarrow> string)
   \<Rightarrow> string list \<Rightarrow> error + LoadedEvent list" where
  "load_actions json_loads strptime strip file =
     load_actions_loop json_loads strptime strip file []"

section \<open>collect\_fail2ban.py: the metrics\<close>

text \<open>
  An event as the dataclass declares it, and a row of the ground-truth table with the
  columns the metrics read. A Python \<^verbatim>\<open>dict\<close> is an association list in insertion
  order with distinct keys: \<^const>\<open>map_of\<close> reads it and \<^const>\<open>AList.update\<close>
  assigns to a key, in place when the key is there and at the end otherwise.
\<close>

record ActionEvent =
  timestamp :: datetime
  ip :: string
  action :: string
  jail :: string
  reason :: "string option"

record truth_row =
  src_ip :: string
  label_norm :: string
  first_ts_parsed :: datetime

type_synonym 'v dict = "(string \<times> 'v) list"

definition setdefault :: "string \<Rightarrow> 'v \<Rightarrow> 'v dict \<Rightarrow> 'v dict" where
  "setdefault k v d = (case map_of d k of None \<Rightarrow> d @ [(k, v)] | Some _ \<Rightarrow> d)"

fun first_ban_loop :: "ActionEvent list \<Rightarrow> datetime dict \<Rightarrow> datetime dict" where
  "first_ban_loop [] first_ban = first_ban"
| "first_ban_loop (event # rest) first_ban =
     (if py_lower (action event) \<noteq> ''ban'' then first_ban_loop rest first_ban
      else first_ban_loop rest (setdefault (ip event) (timestamp event) first_ban))"

fun detection_loop :: "truth_row list \<Rightarrow> datetime dict \<Rightarrow> real dict \<Rightarrow> real dict" where
  "detection_loop [] first_ban detection_seconds = detection_seconds"
| "detection_loop (row # rest) first_ban detection_seconds =
     (case map_of first_ban (src_ip row) of
        None \<Rightarrow> detection_loop rest first_ban detection_seconds
      | Some t \<Rightarrow>
          detection_loop rest first_ban
            (AList.update (src_ip row) (seconds_between t (first_ts_parsed row))
               detection_seconds))"

definition compute_detection_times :: "ActionEvent list \<Rightarrow> truth_row list \<Rightarrow> real dict" where
  "compute_detection_times actions truth =
     detection_loop truth (first_ban_loop actions []) []"

text \<open>
  Reading \<^verbatim>\<open>d[k]\<close> on a \<^verbatim>\<open>defaultdict(list)\<close> gives the empty list for a new key
  and stores it.
\<close>

definition dd_get :: "'v list dict \<Rightarrow> string \<Rightarrow> 'v list" where
  "dd_get d k = (case map_of d k of None \<Rightarrow> [] | Some v \<Rightarrow> v)"

definition dd_touch :: "string \<Rightarrow> 'v list dict \<Rightarrow> 'v list dict" where
  "dd_touch k d = setdefault k [] d"

fun block_loop :: "ActionEvent list \<Rightarrow> datetime list dict \<Rightarrow> real list dict \<Rightarrow> real list dict" where
  "block_loop [] bans durations = durations"
| "block_loop (event # rest) bans durations =
     (if py_lower (action event) = ''ban''
      then block_loop rest
             (AList.update (ip event) (dd_get bans (ip event) @ [timestamp event]) bans)
             durations
      else if py_lower (action event) = ''unban''
      then (case dd_get bans (ip event) of
              [] \<Rightarrow> block_loop rest (dd_touch (ip event) bans) durations
            | start # pending \<Rightarrow>
                block_loop rest (AList.update (ip event) pending bans)
                  (AList.update (ip event)
                     (dd_get durations (ip event) @ [seconds_between (timestamp event) start])
                     durations))
      else block_loop rest bans durations)"

definition compute_block_durations :: "ActionEvent list \<Rightarrow> real list dict" where
  "compute_block_durations actions =
     block_loop (sort_key (\<lambda>e. dt_key (timestamp e)) actions) [] []"

record summary =
  count :: nat
  avg :: real
  median :: real
  min_value :: real
  max_value :: real

definition statistics_median :: "real list \<Rightarrow> real" where
  \<comment> \<open>called on non-empty data only\<close>
  "statistics_median xs =
     (let data = sort xs; n = length data
      in if n mod 2 = 1 then data ! (n div 2)
         else (data ! (n div 2 - 1) + data ! (n div 2)) / 2)"

definition summarize :: "real list \<Rightarrow> summary" where
  "summarize data =
     (if data = [] then \<lparr>count = 0, avg = 0, median = 0, min_value = 0, max_value = 0\<rparr>
      else \<lparr>count = length data, avg = sum_list data / real (length data),
             median = statistics_median data, min_value = Min (set data),
             max_value = Max (set data)\<rparr>)"

definition malicious_ips :: "truth_row list \<Rightarrow> string set" where
  "malicious_ips truth = set (map src_ip (filter (\<lambda>r. label_norm r = ''malicious'') truth))"

definition benign_ips :: "truth_row list \<Rightarrow> string set" where
  "benign_ips truth = set (map src_ip (filter (\<lambda>r. label_norm r = ''benign'') truth))"

definition unknown_ips :: "truth_row list \<Rightarrow> string set" where
  "unknown_ips truth = set (map src_ip (filter (\<lambda>r. label_norm r = ''unknown'') truth))"

definition banned_ips :: "ActionEvent list \<Rightarrow> string set" where
  "banned_ips actions = set (map ip (filter (\<lambda>e. py_lower (action e) = ''ban'') actions))"

definition true_positive :: "ActionEvent list \<Rightarrow> truth_row list \<Rightarrow> int" where
  "true_positive actions truth = int (card (banned_ips actions \<inter> malicious_ips truth))"

definition false_positive :: "ActionEvent list \<Rightarrow> truth_row list \<Rightarrow> int" where
  "false_positive actions truth = int (card (banned_ips actions \<inter> benign_ips truth))"

definition false_negative :: "ActionEvent list \<Rightarrow> truth_row list \<Rightarrow> int" where
  "false_negative actions truth = int (card (malicious_ips truth - banned_ips actions))"

definition true_negative :: "ActionEvent list \<Rightarrow> truth_row list \<Rightarrow> int" where
  "true_negative actions truth = int (card (benign_ips truth)) - false_positive actions truth"

record metrics =
  count_malicious_ips :: nat
  count_benign_ips :: nat
  count_unknown_ips :: nat
  count_banned_ips :: nat
  tpr :: real
  fpr :: real
  accuracy :: real
  detection_seconds :: summary
  blocking_seconds :: summary
  detection_by_ip :: "real dict"
  blocking_by_ip :: "real list dict"

definition compute_metrics :: "ActionEvent list \<Rightarrow> truth_row list \<Rightarrow> metrics" where
  "compute_metrics actions truth =
     (let detection_times =
            compute_detection_times actions (filter (\<lambda>r. label_norm r = ''malicious'') truth);
          block_durations = compute_block_durations actions
      in \<lparr>count_malicious_ips = card (malicious_ips truth),
          count_benign_ips = card (benign_ips truth),
          count_unknown_ips = card (unknown_ips truth),
          count_banned_ips = card (banned_ips actions),
          tpr = (if malicious_ips truth \<noteq> {}
                 then real_of_int (true_positive actions truth) / real (card (malicious_ips truth))
                 else 0),
          fpr = (if benign_ips truth \<noteq> {}
                 then real_of_int (false_positive actions truth) / real (card (benign_ips truth))
                 else 0),
          accuracy = (if malicious_ips truth \<noteq> {} \<or> benign_ips truth \<noteq> {}
                      then real_of_int (true_positive actions truth + true_negative actions truth)
                           / real (card (malicious_ips truth) + card (benign_ips truth))
                      else 0),
          detection_seconds = summarize (map snd detection_times),
          blocking_seconds = summarize (concat (map snd block_durations)),
          detection_by_ip = detection_times,
          blocking_by_ip = block_durations\<rparr>)"

section \<open>collect\_fail2ban.py: the run history\<close>

text \<open>
  \<^verbatim>\<open>statistics.stdev\<close> raises \<^verbatim>\<open>StatisticsError\<close> on fewer than two data points.
  The history file is an optional list of entries (\<open>None\<close> when the file does not
  exist). \<open>update_history\<close> returns the list written back to the file, which happens
  before the statistics are computed, and then the repeatability dictionary or the error
  raised; a key left out of the dictionary is \<open>None\<close>.
\<close>

record RunEntry =
  run_id :: string
  run_notes :: string
  run_metrics :: metrics

record repeatability =
  detection_seconds_std :: "real option"
  accuracy_std :: "real option"

definition stdev :: "real list \<Rightarrow> error + real" where
  "stdev xs =
     (if length xs < 2 then Inl StatisticsError
      else (let m = sum_list xs / real (length xs)
            in Inr (sqrt (sum_list (map (\<lambda>x. (x - m)\<^sup>2) xs) / (real (length xs) - 1)))))"

definition update_history :: "RunEntry list option \<Rightarrow> RunEntry \<Rightarrow> RunEntry list \<times> (error + repeatability)" where
  "update_history stored run_entry =
     (let history = (case stored of None \<Rightarrow> [] | Some h \<Rightarrow> h) @ [run_entry]
      in (history,
          if 2 \<le> length history
          then (let detection_vals =
                      map (\<lambda>h. avg (detection_seconds (run_metrics h)))
                        (filter (\<lambda>h. count (detection_seconds (run_metrics h)) \<noteq> 0) history);
                    accuracy_vals = map (\<lambda>h. accuracy (run_metrics h)) history
                in case (if detection_vals \<noteq> [] then map_sum id Some (stdev detection_vals)
                         else Inr None) of
                     Inl e \<Rightarrow> Inl e
                   | Inr d \<Rightarrow>
                       (case (if accuracy_vals \<noteq> [] then map_sum id Some (stdev accuracy_vals)
                              else Inr None) of
                          Inl e \<Rightarrow> Inl e
                        | Inr a \<Rightarrow> Inr \<lparr>detection_seconds_std = d, accuracy_std = a\<rparr>))
          else Inr \<lparr>detection_seconds_std = None, accuracy_std = None\<rparr>))"

section \<open>The pairing of bans and unbans, as specified\<close>

text \<open>
  The specification's wording, for the events of one address in processing order: a queue
  of pending ban timestamps; a ban is pushed at the back; an unban takes the oldest
  pending ban from the front and records the time between the two; an unban that finds
  the queue empty records nothing.
\<close>

fun fifo_pair :: "datetime list \<Rightarrow> ActionEvent list \<Rightarrow> real list" where
  "fifo_pair pending [] = []"
| "fifo_pair pending (e # es) =
     (if py_lower (action e) = ''ban'' then fifo_pair (pending @ [timestamp e]) es
      else if py_lower (action e) = ''unban''
      then (case pending of
              [] \<Rightarrow> fifo_pair [] es
            | oldest # later \<Rightarrow> seconds_between (timestamp e) oldest # fifo_pair later es)
      else fifo_pair pending es)"

section \<open>Quantities of a replay run\<close>






fun processed :: "nat \<Rightarrow> int option \<Rightarrow> LogLine list \<Rightarrow> nat" where
  "processed n max_lines [] = 0"
| "processed n max_lines (line # rest) =
     (if (case max_lines of None \<Rightarrow> False | Some m \<Rightarrow> m \<noteq> 0 \<and> m \<le> int (n + 1)) then 1
      else 1 + processed (n + 1) max_lines rest)"

section \<open>What a loaded event holds\<close>

text \<open>
  The statement of the loader's contract: \<open>has_key\<close> tells whether a payload is
  an object with the key; \<open>time_field\<close> is the value the timestamp is parsed from,
  \<^verbatim>\<open>timestamp\<close> unless it is missing or false, then \<^verbatim>\<open>ts\<close>; \<open>loaded_from\<close>
  relates a line to the event built from it, with the defaults for the missing fields.
\<close>

definition has_key :: "json \<Rightarrow> string \<Rightarrow> bool" where
  "has_key payload k = (case payload of JObj kvs \<Rightarrow> map_of kvs k \<noteq> None | _ \<Rightarrow> False)"

definition time_field :: "(string \<times> json) list \<Rightarrow> json option" where
  "time_field kvs =
     (case map_of kvs ''timestamp'' of
        Some t \<Rightarrow> if truthy t then Some t else map_of kvs ''ts''
      | None \<Rightarrow> map_of kvs ''ts'')"

definition loaded_from ::
  "(string \<Rightarrow> error + json) \<Rightarrow> (string \<Rightarrow> string \<Rightarrow> datetime option) \<Rightarrow> string \<Rightarrow> LoadedEvent
   \<Rightarrow> bool" where
  "loaded_from json_loads strptime line ev =
     (case json_loads line of
        Inr (JObj kvs) \<Rightarrow>
          (case time_field kvs of
             Some v \<Rightarrow> parse_dt strptime v = Inr (loaded_timestamp ev)
           | None \<Rightarrow> False)
          \<and> map_of kvs ''ip'' = Some (loaded_ip ev)
          \<and> loaded_action ev
              = (case map_of kvs ''action'' of None \<Rightarrow> JStr ''ban'' | Some v \<Rightarrow> v)
          \<and> loaded_jail ev
              = (case map_of kvs ''jail'' of None \<Rightarrow> JStr ''ssh-proxmox'' | Some v \<Rightarrow> v)
          \<and> loaded_reason ev = (case map_of kvs ''reason'' of None \<Rightarrow> JNull | Some v \<Rightarrow> v)
      | _ \<Rightarrow> False)"

section \<open>The case of ASCII letters\<close>

text \<open>
  Changing the case of the ASCII letters of a text, leaving every other code point as it
  is; used to state what the label match ignores.
\<close>

definition ascii_lower :: "nat list \<Rightarrow> nat list" where
  "ascii_lower s = map (\<lambda>c. if 65 \<le> c \<and> c \<le> 90 then c + 32 else c) s"

definition ascii_upper :: "nat list \<Rightarrow> nat list" where
  "ascii_upper s = map (\<lambda>c. if 97 \<le> c \<and> c \<le> 122 then c - 32 else c) s"

section \<open>Concrete inputs\<close>

text \<open>Small inputs on which the theorems below are evaluated.\<close>

definition example_time :: "int \<Rightarrow> datetime" where
  "example_time s = \<lparr>year = 2024, month = 1, day = 1, hour = 0, minute = 0, second = s, microsecond = 0\<rparr>"

definition example_event :: "int \<Rightarrow> string \<Rightarrow> string \<Rightarrow> ActionEvent" where
  "example_event s a k = \<lparr>timestamp = example_time s, ip = a, action = k, jail = ''sshd'', reason = None\<rparr>"

definition example_row :: "string \<Rightarrow> string \<Rightarrow> int \<Rightarrow> truth_row" where
  "example_row a l s = \<lparr>src_ip = a, label_norm = l, first_ts_parsed = example_time s\<rparr>"

definition example_truth :: "truth_row list" where
  "example_truth = [example_row ''A'' ''malicious'' 0, example_row ''B'' ''malicious'' 0,
     example_row ''C'' ''benign'' 0, example_row ''D'' ''benign'' 0, example_row ''E'' ''unknown'' 0]"

definition example_actions :: "ActionEvent list" where
  "example_actions = [example_event 1 ''A'' ''ban'', example_event 2 ''C'' ''Ban'', example_event 3 ''E'' ''ban'', example_event 4 ''B'' ''unban'']"

definition example_quiet_run :: RunEntry where
  "example_quiet_run =
     \<lparr>run_id = ''run-1'', run_notes = [], run_metrics = compute_metrics [] example_truth\<rparr>"

definition example_run :: RunEntry where
  "example_run =
     \<lparr>run_id = ''run-2'', run_notes = [],
      run_metrics = compute_metrics example_actions example_truth\<rparr>"


text \<open>
  \<^verbatim>\<open>str.upper\<close> and \<^verbatim>\<open>str.lower\<close> on text made of ASCII characters and the
  Kelvin sign U+212A (code point 8490): the Kelvin sign is an upper-case letter, so
  \<^verbatim>\<open>upper\<close> leaves it, and its lower-case form is the ASCII letter k.
\<close>

definition example_upper :: "nat list \<Rightarrow> nat list" where
  "example_upper s = ascii_upper s"

definition example_lower :: "nat list \<Rightarrow> nat list" where
  "example_lower s = map (\<lambda>c. if c = 8490 then 107 else c) (ascii_lower s)"

definition example_skewed_truth :: "truth_row list" where
  "example_skewed_truth =
     [example_row ''A'' ''malicious'' 0, example_row ''B'' ''malicious'' 0,
      example_row ''F'' ''malicious'' 0, example_row ''C'' ''benign'' 0,
      example_row ''E'' ''unknown'' 0]"

text \<open>
  A decoder and a date parser that know the four lines of a small action log, standing
  in for the library on that log.
\<close>

definition example_json_loads :: "string \<Rightarrow> error + json" where
  "example_json_loads line =
     (case map_of
        [(''full'', JObj [(''timestamp'', JStr ''2024-01-01T00:00:05Z''), (''action'', JStr ''unban''),
                          (''ip'', JStr ''10.0.0.1''), (''jail'', JStr ''sshd''),
                          (''reason'', JStr ''matches'')]),
         (''bare'', JObj [(''ts'', JStr ''2024-01-01T00:00:05Z''), (''ip'', JStr ''10.0.0.2'')]),
         (''no-ip'', JObj [(''timestamp'', JStr ''2024-01-01T00:00:05Z'')]),
         (''no-time'', JObj [(''ip'', JStr ''10.0.0.3'')])]
        (py_strip line) of
        Some v \<Rightarrow> Inr v
      | None \<Rightarrow> Inl JSONDecodeError)"

definition example_strptime :: "string \<Rightarrow> string \<Rightarrow> datetime option" where
  "example_strptime v fmt =
     (if v = ''2024-01-01T00:00:05Z'' \<and> fmt = ''%Y-%m-%dT%H:%M:%SZ'' then Some (example_time 5)
      else None)"

section \<open>Label normalisation\<close>

lemma ascii_upper_ascii_lower: "ascii_upper (ascii_lower s) = ascii_upper s"
  by (induction s) (auto simp: ascii_upper_def ascii_lower_def)

lemma ascii_upper_idem: "ascii_upper (ascii_upper s) = ascii_upper s"
  by (induction s) (auto simp: ascii_upper_def)

text \<open>
  C9, as stated, fails: the match is not insensitive to case for every input string. The
  text ATTAC followed by the Kelvin sign is labelled benign, and its lower-case form,
  which is attack, is labelled malicious.
\<close>

theorem kelvin_sign_case_counterexample:
  "normalize_label example_upper (Some (ascii ''ATTAC'' @ [8490])) = ''benign''
   \<and> example_lower (ascii ''ATTAC'' @ [8490]) = ascii ''attack''
   \<and> normalize_label example_upper (Some (ascii ''attack'')) = ''malicious''"
  by code_simp

text \<open>
  C9, amended. Whatever \<^verbatim>\<open>str.upper\<close> does, \<open>normalize_label\<close> is total and
  returns exactly one of malicious, benign and unknown: malicious when the upper-cased
  input contains ATTACK (also when it contains UNKNOWN as well), unknown when it contains
  UNKNOWN and not ATTACK, benign otherwise. Two inputs with the same upper-cased form get
  the same label; so the match ignores the case of ASCII letters, \<^verbatim>\<open>str.upper\<close>
  giving the same result before and after their case is changed.
\<close>

theorem normalize_label_total_precedence:
  "normalize_label upper l \<in> {''malicious'', ''benign'', ''unknown''}
   \<and> (normalize_label upper l = ''malicious'')
       = sublist (ascii ''ATTACK'') (upper (case l of None \<Rightarrow> [] | Some s \<Rightarrow> s))
   \<and> (normalize_label upper l = ''unknown'')
       = (sublist (ascii ''UNKNOWN'') (upper (case l of None \<Rightarrow> [] | Some s \<Rightarrow> s))
          \<and> \<not> sublist (ascii ''ATTACK'') (upper (case l of None \<Rightarrow> [] | Some s \<Rightarrow> s)))
   \<and> (normalize_label upper l = ''benign'')
       = (\<not> sublist (ascii ''UNKNOWN'') (upper (case l of None \<Rightarrow> [] | Some s \<Rightarrow> s))
          \<and> \<not> sublist (ascii ''ATTACK'') (upper (case l of None \<Rightarrow> [] | Some s \<Rightarrow> s)))
   \<and> (upper a = upper b \<longrightarrow>
        normalize_label upper (Some a) = normalize_label upper (Some b))
   \<and> ((\<forall>t. upper (ascii_lower t) = upper t) \<longrightarrow>
        normalize_label upper (Some (ascii_lower s)) = normalize_label upper (Some s))
   \<and> ((\<forall>t. upper (ascii_upper t) = upper t) \<longrightarrow>
        normalize_label upper (Some (ascii_upper s)) = normalize_label upper (Some s))"
  by (simp add: normalize_label_def Let_def)

theorem normalize_label_total_precedence_witness:
  "normalize_label example_upper (Some (ascii ''unknown attack'')) = ''malicious''
   \<and> normalize_label example_upper (Some (ascii ''Unknown'')) = ''unknown''
   \<and> normalize_label example_upper (Some (ascii ''BENIGN'')) = ''benign''
   \<and> normalize_label example_upper None = ''benign''
   \<and> normalize_label example_upper (Some (ascii_lower (ascii ''An Attack'')))
       = normalize_label example_upper (Some (ascii ''An Attack''))
   \<and> normalize_label example_upper (Some (ascii_upper (ascii ''An Attack'')))
       = normalize_label example_upper (Some (ascii ''An Attack''))
   \<and> normalize_label example_upper (Some (ascii ''An Attack'')) = ''malicious''"
proof -
  have a: "sublist (ascii ''ATTACK'') (example_upper (ascii ''unknown attack''))"
    by code_simp
  have b: "sublist (ascii ''UNKNOWN'') (example_upper (ascii ''Unknown''))"
          "\<not> sublist (ascii ''ATTACK'') (example_upper (ascii ''Unknown''))"
    by code_simp+
  have c: "\<not> sublist (ascii ''UNKNOWN'') (example_upper (ascii ''BENIGN''))"
          "\<not> sublist (ascii ''ATTACK'') (example_upper (ascii ''BENIGN''))"
    by code_simp+
  have d: "\<not> sublist (ascii ''UNKNOWN'') (example_upper [])"
          "\<not> sublist (ascii ''ATTACK'') (example_upper [])"
    by code_simp+
  have e: "sublist (ascii ''ATTACK'') (example_upper (ascii ''An Attack''))"
    by code_simp
  have hl: "\<forall>t. example_upper (ascii_lower t) = example_upper t"
    by (simp add: example_upper_def ascii_upper_ascii_lower)
  have hu: "\<forall>t. example_upper (ascii_upper t) = example_upper t"
    by (simp add: example_upper_def ascii_upper_idem)
  note t = normalize_label_total_precedence [where upper = example_upper]
  have 1: "normalize_label example_upper (Some (ascii ''unknown attack'')) = ''malicious''"
    using t [where l = "Some (ascii ''unknown attack'')"] a by simp
  have 2: "normalize_label example_upper (Some (ascii ''Unknown'')) = ''unknown''"
    using t [where l = "Some (ascii ''Unknown'')"] b by simp
  have 3: "normalize_label example_upper (Some (ascii ''BENIGN'')) = ''benign''"
    using t [where l = "Some (ascii ''BENIGN'')"] c by simp
  have 4: "normalize_label example_upper None = ''benign''"
    using t [where l = None] d by simp
  have 5: "normalize_label example_upper (Some (ascii_lower (ascii ''An Attack'')))
           = normalize_label example_upper (Some (ascii ''An Attack''))"
    using t [where s = "ascii ''An Attack''"] hl by blast
  have 6: "normalize_label example_upper (Some (ascii_upper (ascii ''An Attack'')))
           = normalize_label example_upper (Some (ascii ''An Attack''))"
    using t [where s = "ascii ''An Attack''"] hu by blast
  have 7: "normalize_label example_upper (Some (ascii ''An Attack'')) = ''malicious''"
    using t [where l = "Some (ascii ''An Attack'')"] e by simp
  show ?thesis
    using 1 2 3 4 5 6 7 by blast
qed

section \<open>The confusion matrix\<close>

lemma malicious_ips_drop_unknown:
  "malicious_ips (filter (\<lambda>r. label_norm r \<noteq> ''unknown'') truth) = malicious_ips truth"
proof -
  have "filter (\<lambda>r. label_norm r = ''malicious'') (filter (\<lambda>r. label_norm r \<noteq> ''unknown'') truth)
        = filter (\<lambda>r. label_norm r = ''malicious'') truth"
    by (induction truth) auto
  then show ?thesis by (simp add: malicious_ips_def)
qed

lemma benign_ips_drop_unknown:
  "benign_ips (filter (\<lambda>r. label_norm r \<noteq> ''unknown'') truth) = benign_ips truth"
proof -
  have "filter (\<lambda>r. label_norm r = ''benign'') (filter (\<lambda>r. label_norm r \<noteq> ''unknown'') truth)
        = filter (\<lambda>r. label_norm r = ''benign'') truth"
    by (induction truth) auto
  then show ?thesis by (simp add: benign_ips_def)
qed

lemma finite_malicious_ips: "finite (malicious_ips truth)"
  by (simp add: malicious_ips_def)

lemma false_negative_eq:
  "false_negative actions truth = int (card (malicious_ips truth)) - true_positive actions truth"
proof -
  let ?M = "malicious_ips truth" and ?B = "banned_ips actions"
  have fin: "finite ?M" by (rule finite_malicious_ips)
  have le: "card (?M \<inter> ?B) \<le> card ?M"
    using fin by (simp add: card_mono)
  have "card (?M - ?B) = card ?M - card (?M \<inter> ?B)"
    using fin by (simp add: card_Diff_subset_Int)
  then show ?thesis
    using le by (simp add: false_negative_def true_positive_def Int_commute)
qed

lemma banned_ips_iff:
  "(a \<in> banned_ips actions) = (\<exists>e \<in> set actions. ip e = a \<and> py_lower (action e) = ''ban'')"
  by (auto simp: banned_ips_def)

lemma compute_metrics_rates:
  "tpr (compute_metrics actions truth)
       = (if malicious_ips truth = {} then 0
          else real_of_int (true_positive actions truth) / real (card (malicious_ips truth)))"
  "fpr (compute_metrics actions truth)
       = (if benign_ips truth = {} then 0
          else real_of_int (false_positive actions truth) / real (card (benign_ips truth)))"
  "accuracy (compute_metrics actions truth)
       = (if malicious_ips truth = {} \<and> benign_ips truth = {} then 0
          else real_of_int (true_positive actions truth + true_negative actions truth)
               / real (card (malicious_ips truth) + card (benign_ips truth)))"
  by (simp_all add: compute_metrics_def Let_def)

lemma malicious_ips_set:
  "malicious_ips truth = {a. \<exists>r \<in> set truth. src_ip r = a \<and> label_norm r = ''malicious''}"
  by (auto simp: malicious_ips_def)

lemma benign_ips_set:
  "benign_ips truth = {a. \<exists>r \<in> set truth. src_ip r = a \<and> label_norm r = ''benign''}"
  by (auto simp: benign_ips_def)

lemma confusion_core:
  "banned_ips actions = {a. \<exists>e \<in> set actions. ip e = a \<and> py_lower (action e) = ''ban''}
   \<and> true_positive actions truth = int (card (banned_ips actions \<inter> malicious_ips truth))
   \<and> false_positive actions truth = int (card (banned_ips actions \<inter> benign_ips truth))
   \<and> false_negative actions truth = int (card (malicious_ips truth)) - true_positive actions truth
   \<and> true_negative actions truth = int (card (benign_ips truth)) - false_positive actions truth
   \<and> tpr (compute_metrics actions truth)
       = (if malicious_ips truth = {} then 0
          else real_of_int (true_positive actions truth) / real (card (malicious_ips truth)))
   \<and> fpr (compute_metrics actions truth)
       = (if benign_ips truth = {} then 0
          else real_of_int (false_positive actions truth) / real (card (benign_ips truth)))
   \<and> accuracy (compute_metrics actions truth)
       = (if malicious_ips truth = {} \<and> benign_ips truth = {} then 0
          else real_of_int (true_positive actions truth + true_negative actions truth)
               / real (card (malicious_ips truth) + card (benign_ips truth)))
   \<and> true_positive actions (filter (\<lambda>r. label_norm r \<noteq> ''unknown'') truth)
       = true_positive actions truth
   \<and> false_positive actions (filter (\<lambda>r. label_norm r \<noteq> ''unknown'') truth)
       = false_positive actions truth
   \<and> false_negative actions (filter (\<lambda>r. label_norm r \<noteq> ''unknown'') truth)
       = false_negative actions truth
   \<and> true_negative actions (filter (\<lambda>r. label_norm r \<noteq> ''unknown'') truth)
       = true_negative actions truth
   \<and> tpr (compute_metrics actions (filter (\<lambda>r. label_norm r \<noteq> ''unknown'') truth))
       = tpr (compute_metrics actions truth)
   \<and> fpr (compute_metrics actions (filter (\<lambda>r. label_norm r \<noteq> ''unknown'') truth))
       = fpr (compute_metrics actions truth)
   \<and> accuracy (compute_metrics actions (filter (\<lambda>r. label_norm r \<noteq> ''unknown'') truth))
       = accuracy (compute_metrics actions truth)"
proof -
  have b: "banned_ips actions = {a. \<exists>e \<in> set actions. ip e = a \<and> py_lower (action e) = ''ban''}"
    by (auto simp: banned_ips_iff)
  have fn: "false_negative actions truth
            = int (card (malicious_ips truth)) - true_positive actions truth"
    by (rule false_negative_eq)
  note rates = compute_metrics_rates [of actions truth]
  have u: "true_positive actions (filter (\<lambda>r. label_norm r \<noteq> ''unknown'') truth)
             = true_positive actions truth"
          "false_positive actions (filter (\<lambda>r. label_norm r \<noteq> ''unknown'') truth)
             = false_positive actions truth"
          "false_negative actions (filter (\<lambda>r. label_norm r \<noteq> ''unknown'') truth)
             = false_negative actions truth"
          "true_negative actions (filter (\<lambda>r. label_norm r \<noteq> ''unknown'') truth)
             = true_negative actions truth"
    by (simp_all add: true_positive_def false_positive_def false_negative_def
          true_negative_def malicious_ips_drop_unknown benign_ips_drop_unknown)
  have ur: "tpr (compute_metrics actions (filter (\<lambda>r. label_norm r \<noteq> ''unknown'') truth))
              = tpr (compute_metrics actions truth)"
           "fpr (compute_metrics actions (filter (\<lambda>r. label_norm r \<noteq> ''unknown'') truth))
              = fpr (compute_metrics actions truth)"
           "accuracy (compute_metrics actions (filter (\<lambda>r. label_norm r \<noteq> ''unknown'') truth))
              = accuracy (compute_metrics actions truth)"
    by (simp_all only: compute_metrics_rates u malicious_ips_drop_unknown benign_ips_drop_unknown)
  show ?thesis
    using b fn rates u ur
    by (simp only: true_positive_def false_positive_def true_negative_def simp_thms)
qed


text \<open>
  C3. The malicious addresses are those of the rows labelled malicious, the benign
  addresses those of the rows labelled benign, and banned is the set of addresses that
  have at least one ban action. True positives are the banned malicious addresses, false
  positives the banned benign ones, false negatives the malicious addresses less the
  true positives, true negatives the benign addresses less the false positives; each
  rate is the quotient the specification gives, and 0 when its denominator set is empty.
  Rows labelled unknown change none of these: dropping them from the table leaves every
  count and rate as it was.
\<close>

theorem confusion_counts_and_rates:
  "malicious_ips truth = {a. \<exists>r \<in> set truth. src_ip r = a \<and> label_norm r = ''malicious''}
   \<and> benign_ips truth = {a. \<exists>r \<in> set truth. src_ip r = a \<and> label_norm r = ''benign''}
   \<and> banned_ips actions = {a. \<exists>e \<in> set actions. ip e = a \<and> py_lower (action e) = ''ban''}
   \<and> true_positive actions truth = int (card (banned_ips actions \<inter> malicious_ips truth))
   \<and> false_positive actions truth = int (card (banned_ips actions \<inter> benign_ips truth))
   \<and> false_negative actions truth = int (card (malicious_ips truth)) - true_positive actions truth
   \<and> true_negative actions truth = int (card (benign_ips truth)) - false_positive actions truth
   \<and> tpr (compute_metrics actions truth)
       = (if malicious_ips truth = {} then 0
          else real_of_int (true_positive actions truth) / real (card (malicious_ips truth)))
   \<and> fpr (compute_metrics actions truth)
       = (if benign_ips truth = {} then 0
          else real_of_int (false_positive actions truth) / real (card (benign_ips truth)))
   \<and> accuracy (compute_metrics actions truth)
       = (if malicious_ips truth = {} \<and> benign_ips truth = {} then 0
          else real_of_int (true_positive actions truth + true_negative actions truth)
               / real (card (malicious_ips truth) + card (benign_ips truth)))
   \<and> true_positive actions (filter (\<lambda>r. label_norm r \<noteq> ''unknown'') truth)
       = true_positive actions truth
   \<and> false_positive actions (filter (\<lambda>r. label_norm r \<noteq> ''unknown'') truth)
       = false_positive actions truth
   \<and> false_negative actions (filter (\<lambda>r. label_norm r \<noteq> ''unknown'') truth)
       = false_negative actions truth
   \<and> true_negative actions (filter (\<lambda>r. label_norm r \<noteq> ''unknown'') truth)
       = true_negative actions truth
   \<and> tpr (compute_metrics actions (filter (\<lambda>r. label_norm r \<noteq> ''unknown'') truth))
       = tpr (compute_metrics actions truth)
   \<and> fpr (compute_metrics actions (filter (\<lambda>r. label_norm r \<noteq> ''unknown'') truth))
       = fpr (compute_metrics actions truth)
   \<and> accuracy (compute_metrics actions (filter (\<lambda>r. label_norm r \<noteq> ''unknown'') truth))
       = accuracy (compute_metrics actions truth)"
  by (rule conjI [OF malicious_ips_set conjI [OF benign_ips_set confusion_core]])

theorem confusion_counts_and_rates_witness:
  "malicious_ips example_skewed_truth = {''A'', ''B'', ''F''}
   \<and> benign_ips example_skewed_truth = {''C''}
   \<and> banned_ips example_actions = {''A'', ''C'', ''E''}
   \<and> true_positive example_actions example_skewed_truth = 1
   \<and> false_positive example_actions example_skewed_truth = 1
   \<and> false_negative example_actions example_skewed_truth = 2
   \<and> true_negative example_actions example_skewed_truth = 0
   \<and> tpr (compute_metrics example_actions example_skewed_truth) = 1 / 3
   \<and> fpr (compute_metrics example_actions example_skewed_truth) = 1
   \<and> accuracy (compute_metrics example_actions example_skewed_truth) = 1 / 4
   \<and> true_positive example_actions example_truth = 1
   \<and> false_positive example_actions example_truth = 1
   \<and> false_negative example_actions example_truth = 1
   \<and> true_negative example_actions example_truth = 1
   \<and> tpr (compute_metrics example_actions example_truth) = 1 / 2
   \<and> fpr (compute_metrics example_actions example_truth) = 1 / 2
   \<and> accuracy (compute_metrics example_actions example_truth) = 1 / 2"
proof -
  have rows: "{a. \<exists>r \<in> set example_skewed_truth. src_ip r = a \<and> label_norm r = ''malicious''}
              = {''A'', ''B'', ''F''}"
             "{a. \<exists>r \<in> set example_skewed_truth. src_ip r = a \<and> label_norm r = ''benign''}
              = {''C''}"
             "{a. \<exists>r \<in> set example_truth. src_ip r = a \<and> label_norm r = ''malicious''}
              = {''A'', ''B''}"
             "{a. \<exists>r \<in> set example_truth. src_ip r = a \<and> label_norm r = ''benign''}
              = {''C'', ''D''}"
    by (auto simp: example_skewed_truth_def example_truth_def example_row_def)
  have b: "banned_ips example_actions = {''A'', ''C'', ''E''}"
    by code_simp
  note skewed = confusion_counts_and_rates [of example_skewed_truth example_actions]
  note even = confusion_counts_and_rates [of example_truth example_actions]
  have m: "malicious_ips example_skewed_truth = {''A'', ''B'', ''F''}"
    using skewed rows(1) by simp
  have g: "benign_ips example_skewed_truth = {''C''}"
    using skewed rows(2) by simp
  have m': "malicious_ips example_truth = {''A'', ''B''}"
    using even rows(3) by simp
  have g': "benign_ips example_truth = {''C'', ''D''}"
    using even rows(4) by simp
  have s: "true_positive example_actions example_skewed_truth = 1
   \<and> false_positive example_actions example_skewed_truth = 1
   \<and> false_negative example_actions example_skewed_truth = 2
   \<and> true_negative example_actions example_skewed_truth = 0
   \<and> tpr (compute_metrics example_actions example_skewed_truth) = 1 / 3
   \<and> fpr (compute_metrics example_actions example_skewed_truth) = 1
   \<and> accuracy (compute_metrics example_actions example_skewed_truth) = 1 / 4"
    using skewed unfolding b m g by simp
  have e: "true_positive example_actions example_truth = 1
   \<and> false_positive example_actions example_truth = 1
   \<and> false_negative example_actions example_truth = 1
   \<and> true_negative example_actions example_truth = 1
   \<and> tpr (compute_metrics example_actions example_truth) = 1 / 2
   \<and> fpr (compute_metrics example_actions example_truth) = 1 / 2
   \<and> accuracy (compute_metrics example_actions example_truth) = 1 / 2"
    using even unfolding b m' g' by simp
  show ?thesis
    using m g b s e by blast
qed

section \<open>Calendar arithmetic\<close>

text \<open>
  The order in which Python compares two datetimes (field by field) agrees with the
  order of their microsecond counts, which is what subtraction uses.
\<close>

lemma div_step:
  assumes k: "0 < (k::int)"
  shows "y div k = (y - 1) div k + (if y mod k = 0 then 1 else 0)"
proof -
  define q r where "q = (y - 1) div k" and "r = (y - 1) mod k"
  have eq: "y - 1 = k * q + r" by (simp add: q_def r_def)
  have r: "0 \<le> r" "r < k" using k by (simp_all add: r_def)
  show ?thesis
  proof (cases "r + 1 = k")
    case True
    have y: "y = k * (q + 1) + 0" using eq True by (simp add: algebra_simps)
    have "y div k = q + 1" by (rule int_div_pos_eq [where r = 0]) (use y k in simp_all)
    moreover have "y mod k = 0" by (rule int_mod_pos_eq [where q = "q + 1"]) (use y k in simp_all)
    ultimately show ?thesis by (simp add: q_def)
  next
    case False
    have y: "y = k * q + (r + 1)" using eq by simp
    have b: "0 \<le> r + 1" "r + 1 < k" using r False by simp_all
    have "y div k = q" using y b by (rule int_div_pos_eq)
    moreover have "y mod k = r + 1" using y b by (rule int_mod_pos_eq)
    ultimately show ?thesis using r by (simp add: q_def)
  qed
qed

lemma mod_400_100: "(y::int) mod 400 = 0 \<Longrightarrow> y mod 100 = 0"
proof -
  assume a: "y mod 400 = 0"
  have "y mod 400 mod 100 = y mod 100" by (rule mod_mod_cancel) simp
  then show ?thesis using a by simp
qed

lemma mod_100_4: "(y::int) mod 100 = 0 \<Longrightarrow> y mod 4 = 0"
proof -
  assume a: "y mod 100 = 0"
  have "y mod 100 mod 4 = y mod 4" by (rule mod_mod_cancel) simp
  then show ?thesis using a by simp
qed

lemma month_cases:
  "1 \<le> (m::int) \<Longrightarrow> m \<le> 12 \<Longrightarrow>
   m = 1 \<or> m = 2 \<or> m = 3 \<or> m = 4 \<or> m = 5 \<or> m = 6 \<or> m = 7 \<or> m = 8 \<or> m = 9 \<or> m = 10
   \<or> m = 11 \<or> m = 12"
  by arith

lemma days_before_year_mono:
  assumes "y \<le> y'"
  shows "days_before_year y \<le> days_before_year y'"
proof -
  define n n' where "n = y - 1" and "n' = y' - 1"
  have le: "n \<le> n'" using assms by (simp add: n_def n'_def)
  have a: "n div 4 \<le> n' div 4" using le by (rule zdiv_mono1) simp
  have b: "n div 400 \<le> n' div 400" using le by (rule zdiv_mono1) simp
  have c: "100 * (n' div 100) \<le> n'" by simp
  have d: "n < 100 * (n div 100) + 100"
    using pos_mod_bound [of 100 n] div_mult_mod_eq [of n 100] by linarith
  have "n * 365 + n div 4 - n div 100 + n div 400
        \<le> n' * 365 + n' div 4 - n' div 100 + n' div 400"
    using le a b c d by linarith
  then show ?thesis
    by (simp add: days_before_year_def n_def n'_def)
qed


lemma leap_count:
  "(p400 \<longrightarrow> p100) \<Longrightarrow> (p100 \<longrightarrow> p4)
   \<Longrightarrow> (if p4 then 1 else 0) - (if p100 then 1 else 0) + (if p400 then 1 else 0)
       = (if p4 \<and> (\<not> p100 \<or> p400) then 1 else (0::int))"
  by (cases p4; cases p100; cases p400; simp)

lemma days_before_year_Suc:
  "days_before_year (y + 1) = days_before_year y + (if is_leap y then 366 else 365)"
proof -
  define A B C where "A = (y - 1) div 4" and "B = (y - 1) div 100" and "C = (y - 1) div 400"
  define a b c :: int where "a = (if y mod 4 = 0 then 1 else 0)"
    and "b = (if y mod 100 = 0 then 1 else 0)" and "c = (if y mod 400 = 0 then 1 else 0)"
  define A' B' C' where "A' = y div 4" and "B' = y div 100" and "C' = y div 400"
  have sa: "A' = A + a"
    unfolding A'_def A_def a_def by (rule div_step) simp
  have sb: "B' = B + b"
    unfolding B'_def B_def b_def by (rule div_step) simp
  have sc: "C' = C + c"
    unfolding C'_def C_def c_def by (rule div_step) simp
  have new: "days_before_year (y + 1) = y * 365 + A' - B' + C'"
    by (simp add: days_before_year_def A'_def B'_def C'_def)
  have old: "days_before_year y = (y - 1) * 365 + A - B + C"
    by (simp add: days_before_year_def A_def B_def C_def)
  have "a - b + c = (if y mod 4 = 0 \<and> (\<not> y mod 100 = 0 \<or> y mod 400 = 0) then 1 else 0)"
    unfolding a_def b_def c_def
    by (rule leap_count) (rule impI, erule mod_400_100, rule impI, erule mod_100_4)
  then have leap: "a - b + c = (if is_leap y then 1 else 0)"
    by (simp only: is_leap_def)
  have "days_before_year (y + 1) = days_before_year y + 365 + (a - b + c)"
    unfolding new old sa sb sc by (simp add: algebra_simps)
  then show ?thesis
    unfolding leap by simp
qed

lemma day_of_year_le:
  assumes "1 \<le> m" "m \<le> 12" "d \<le> days_in_month y m"
  shows "days_before_month y m + d \<le> (if is_leap y then 366 else 365)"
  using month_cases [OF assms(1,2)] assms(3)
  by (elim disjE) (auto simp: days_before_month_def days_in_month_def split: if_splits)

lemma days_before_month_next:
  assumes "1 \<le> m" "m \<le> 11"
  shows "days_before_month y (m + 1) = days_before_month y m + days_in_month y m"
proof -
  have "m \<le> 12" using assms by simp
  from month_cases [OF assms(1) this] assms(2) show ?thesis
    by (elim disjE) (simp_all add: days_before_month_def days_in_month_def)
qed

lemma days_in_month_pos: "0 < days_in_month y m"
  by (simp add: days_in_month_def)

lemma days_before_month_mono:
  assumes "1 \<le> m" "m \<le> m'" "m' \<le> 12"
  shows "days_before_month y m \<le> days_before_month y m'"
  using assms(2,3)
proof (induction m' rule: int_ge_induct)
  case base
  then show ?case by simp
next
  case (step i)
  have i: "1 \<le> i" "i \<le> 11" using step.hyps step.prems assms(1) by simp_all
  have "days_before_month y m \<le> days_before_month y i"
    using step.IH i by simp
  also have "\<dots> \<le> days_before_month y (i + 1)"
    using days_in_month_pos [of y i] by (simp add: days_before_month_next [OF i])
  finally show ?case .
qed

lemma toordinal_strict:
  assumes va: "valid_datetime a" and vb: "valid_datetime b"
    and lt: "(year a, month a, day a) < (year b, month b, day b)"
  shows "toordinal a < toordinal b"
proof -
  have a: "1 \<le> month a" "month a \<le> 12" "1 \<le> day a" "day a \<le> days_in_month (year a) (month a)"
    using va by (simp_all add: valid_datetime_def)
  have b: "1 \<le> month b" "month b \<le> 12" "1 \<le> day b"
    using vb by (simp_all add: valid_datetime_def)
  consider "year a < year b" | "year a = year b" "month a < month b"
    | "year a = year b" "month a = month b" "day a < day b"
    using lt by (auto simp: order.order_iff_strict)
  then show ?thesis
  proof cases
    case 1
    have "toordinal a \<le> days_before_year (year a) + (if is_leap (year a) then 366 else 365)"
      using day_of_year_le [OF a(1,2,4)] by (simp add: toordinal_def)
    also have "\<dots> = days_before_year (year a + 1)"
      by (simp add: days_before_year_Suc)
    also have "\<dots> \<le> days_before_year (year b)"
      using 1 by (intro days_before_year_mono) simp
    also have "\<dots> < toordinal b"
    proof -
      have z: "days_before_month (year b) 1 = 0"
        by (simp add: days_before_month_def)
      have "0 \<le> days_before_month (year b) (month b)"
        using days_before_month_mono [of 1 "month b" "year b"] b(1,2) z by simp
      then show ?thesis using b(3) by (simp add: toordinal_def)
    qed
    finally show ?thesis .
  next
    case 2
    have m: "month a \<le> 11" using 2 b by simp
    have "days_before_month (year a) (month a) + day a
          \<le> days_before_month (year a) (month a + 1)"
      using a(4) by (simp add: days_before_month_next [OF a(1) m])
    also have "\<dots> \<le> days_before_month (year a) (month b)"
      using a b 2 by (intro days_before_month_mono) simp_all
    finally show ?thesis
      using 2 b by (simp add: toordinal_def)
  next
    case 3
    then show ?thesis by (simp add: toordinal_def)
  qed
qed

lemma to_micros_mono:
  assumes va: "valid_datetime a" and vb: "valid_datetime b"
    and le: "dt_key a \<le> dt_key b"
  shows "to_micros a \<le> to_micros b"
proof -
  define Ta Tb where "Ta = hour a * 3600 + minute a * 60 + second a"
    and "Tb = hour b * 3600 + minute b * 60 + second b"
  have ra: "0 \<le> hour a" "hour a \<le> 23" "0 \<le> minute a" "minute a \<le> 59"
           "0 \<le> second a" "second a \<le> 59" "0 \<le> microsecond a" "microsecond a \<le> 999999"
    using va by (simp_all add: valid_datetime_def)
  have rb: "0 \<le> hour b" "hour b \<le> 23" "0 \<le> minute b" "minute b \<le> 59"
           "0 \<le> second b" "second b \<le> 59" "0 \<le> microsecond b" "microsecond b \<le> 999999"
    using vb by (simp_all add: valid_datetime_def)
  have ma: "to_micros a = toordinal a * 86400000000 + Ta * 1000000 + microsecond a"
    by (simp add: to_micros_def Ta_def algebra_simps)
  have mb: "to_micros b = toordinal b * 86400000000 + Tb * 1000000 + microsecond b"
    by (simp add: to_micros_def Tb_def algebra_simps)
  have ta: "0 \<le> Ta" "Ta \<le> 86399" using ra by (simp_all add: Ta_def)
  have tb: "0 \<le> Tb" "Tb \<le> 86399" using rb by (simp_all add: Tb_def)
  consider (date) "(year a, month a, day a) < (year b, month b, day b)"
    | (time) "year a = year b" "month a = month b" "day a = day b"
             "(hour a, minute a, second a, microsecond a)
              \<le> (hour b, minute b, second b, microsecond b)"
    using le by (auto simp: dt_key_def order.order_iff_strict)
  then show ?thesis
  proof cases
    case date
    have "toordinal a + 1 \<le> toordinal b"
      using toordinal_strict [OF va vb date] by simp
    then show ?thesis
      unfolding ma mb using ta tb ra(7,8) rb(7,8) by linarith
  next
    case time
    have o: "toordinal a = toordinal b"
      using time(1,2,3) by (simp add: toordinal_def)
    consider "hour a < hour b" | "hour a = hour b" "minute a < minute b"
      | "hour a = hour b" "minute a = minute b" "second a < second b"
      | "hour a = hour b" "minute a = minute b" "second a = second b"
        "microsecond a \<le> microsecond b"
      using time(4) by (auto simp: order.order_iff_strict)
    then show ?thesis
    proof cases
      case 1
      then have "Ta < Tb" using ra rb unfolding Ta_def Tb_def by linarith
      then show ?thesis unfolding ma mb o using ra(7,8) rb(7,8) by linarith
    next
      case 2
      then have "Ta < Tb" using ra rb unfolding Ta_def Tb_def by linarith
      then show ?thesis unfolding ma mb o using ra(7,8) rb(7,8) by linarith
    next
      case 3
      then have "Ta < Tb" unfolding Ta_def Tb_def by linarith
      then show ?thesis unfolding ma mb o using ra(7,8) rb(7,8) by linarith
    next
      case 4
      then have "Ta = Tb" unfolding Ta_def Tb_def by simp
      then show ?thesis unfolding ma mb o using 4(4) by simp
    qed
  qed
qed

lemma seconds_between_nonneg:
  "valid_datetime a \<Longrightarrow> valid_datetime b \<Longrightarrow> dt_key a \<le> dt_key b
   \<Longrightarrow> 0 \<le> seconds_between b a"
  using to_micros_mono [of a b] by (simp add: seconds_between_def)

section \<open>Block durations\<close>

lemma dd_get_update: "dd_get (AList.update k v d) a = (if a = k then v else dd_get d a)"
  by (simp add: dd_get_def update_conv')

lemma dd_get_touch: "dd_get (dd_touch k d) a = dd_get d a"
  by (auto simp: dd_get_def dd_touch_def setdefault_def map_add_def split: option.splits)

lemma block_loop_per_address:
  "dd_get (block_loop es bans durs) a
   = dd_get durs a @ fifo_pair (dd_get bans a) (filter (\<lambda>e. ip e = a) es)"
proof (induction es arbitrary: bans durs)
  case Nil
  then show ?case by simp
next
  case (Cons e es)
  show ?case
  proof (cases "py_lower (action e) = ''ban''")
    case True
    then show ?thesis
      by (simp add: Cons.IH dd_get_update)
  next
    case notban: False
    show ?thesis
    proof (cases "py_lower (action e) = ''unban''")
      case True
      then show ?thesis
        using notban
        by (cases "dd_get bans (ip e)") (auto simp: Cons.IH dd_get_update dd_get_touch)
    next
      case False
      then show ?thesis
        using notban by (simp add: Cons.IH)
    qed
  qed
qed

lemma map_of_None_update:
  "(map_of (AList.update k v d) a = None) = (a \<noteq> k \<and> map_of d a = None)"
  by (simp add: update_conv')

lemma block_loop_keys:
  "(map_of (block_loop es bans durs) a = None)
   = (map_of durs a = None \<and> fifo_pair (dd_get bans a) (filter (\<lambda>e. ip e = a) es) = [])"
proof (induction es arbitrary: bans durs)
  case Nil
  then show ?case by simp
next
  case (Cons e es)
  show ?case
  proof (cases "py_lower (action e) = ''ban''")
    case True
    then show ?thesis
      by (simp add: Cons.IH dd_get_update)
  next
    case notban: False
    show ?thesis
    proof (cases "py_lower (action e) = ''unban''")
      case True
      then show ?thesis
        using notban
        by (cases "dd_get bans (ip e)")
           (auto simp: Cons.IH dd_get_update dd_get_touch map_of_None_update)
    next
      case False
      then show ?thesis
        using notban by (simp add: Cons.IH)
    qed
  qed
qed

lemma block_loop_distinct:
  "distinct (map fst durs) \<Longrightarrow> distinct (map fst (block_loop es bans durs))"
proof (induction es arbitrary: bans durs)
  case Nil
  then show ?case by simp
next
  case (Cons e es)
  then show ?case
    by (auto simp: distinct_update split: list.splits)
qed

lemma compute_block_durations_lookup:
  "map_of (compute_block_durations actions) a
   = (let ds = fifo_pair [] (filter (\<lambda>e. ip e = a)
                               (sort_key (\<lambda>e. dt_key (timestamp e)) actions))
      in if ds = [] then None else Some ds)"
proof -
  let ?es = "sort_key (\<lambda>e. dt_key (timestamp e)) actions"
  let ?ds = "fifo_pair [] (filter (\<lambda>e. ip e = a) ?es)"
  have g: "dd_get (block_loop ?es [] []) a = ?ds"
    using block_loop_per_address [of ?es "[]" "[]" a] by (simp add: dd_get_def)
  have k: "(map_of (block_loop ?es [] []) a = None) = (?ds = [])"
    using block_loop_keys [of ?es "[]" "[]" a] by (simp add: dd_get_def)
  show ?thesis
  proof (cases "?ds = []")
    case True
    then show ?thesis using k by (simp add: compute_block_durations_def Let_def)
  next
    case False
    then obtain v where v: "map_of (block_loop ?es [] []) a = Some v"
      using k by auto
    then have "v = ?ds" using g by (simp add: dd_get_def)
    then show ?thesis using v False by (simp add: compute_block_durations_def Let_def)
  qed
qed

text \<open>
  C4. Block durations are computed over the actions in ascending timestamp order with one
  queue of pending bans per address: for every address the recorded durations are those
  of the first-in-first-out pairing of its events in that order (the address is a key of
  the result exactly when the pairing records something). An unban without a pending ban
  records nothing and there is no error. The actions ban(A,0), ban(A,10), unban(A,20)
  give the single duration 20 for A, in whatever order they are listed.
\<close>

theorem block_durations_fifo:
  "map_of (compute_block_durations actions) a
     = (let ds = fifo_pair [] (filter (\<lambda>e. ip e = a)
                                 (sort_key (\<lambda>e. dt_key (timestamp e)) actions))
        in if ds = [] then None else Some ds)
   \<and> compute_block_durations
        [example_event 0 ''A'' ''ban'', example_event 10 ''A'' ''ban'',
         example_event 20 ''A'' ''unban''] = [(''A'', [20])]
   \<and> compute_block_durations
        [example_event 20 ''A'' ''unban'', example_event 10 ''A'' ''ban'',
         example_event 0 ''A'' ''ban''] = [(''A'', [20])]
   \<and> compute_block_durations [example_event 5 ''A'' ''unban''] = []"
proof -
  have 1: "compute_block_durations
        [example_event 0 ''A'' ''ban'', example_event 10 ''A'' ''ban'',
         example_event 20 ''A'' ''unban''] = [(''A'', [20])]"
    by code_simp
  have 2: "compute_block_durations
        [example_event 20 ''A'' ''unban'', example_event 10 ''A'' ''ban'',
         example_event 0 ''A'' ''ban''] = [(''A'', [20])]"
    by code_simp
  have 3: "compute_block_durations [example_event 5 ''A'' ''unban''] = []"
    by code_simp
  show ?thesis
    using compute_block_durations_lookup [of actions a] 1 2 3 by simp
qed

lemma fifo_pair_nonneg:
  "sorted (map (\<lambda>e. dt_key (timestamp e)) es)
   \<Longrightarrow> \<forall>t \<in> set q. valid_datetime t \<and> (\<forall>e \<in> set es. dt_key t \<le> dt_key (timestamp e))
   \<Longrightarrow> \<forall>e \<in> set es. valid_datetime (timestamp e)
   \<Longrightarrow> \<forall>d \<in> set (fifo_pair q es). 0 \<le> d"
proof (induction es arbitrary: q)
  case Nil
  then show ?case by simp
next
  case (Cons e es)
  have srt: "sorted (map (\<lambda>e. dt_key (timestamp e)) es)"
    and hd_le: "\<forall>e' \<in> set es. dt_key (timestamp e) \<le> dt_key (timestamp e')"
    using Cons.prems(1) by simp_all
  have ve: "valid_datetime (timestamp e)" and ves: "\<forall>e \<in> set es. valid_datetime (timestamp e)"
    using Cons.prems(3) by simp_all
  have q: "\<forall>t \<in> set q. valid_datetime t \<and> dt_key t \<le> dt_key (timestamp e)
             \<and> (\<forall>e \<in> set es. dt_key t \<le> dt_key (timestamp e))"
    using Cons.prems(2) by simp
  show ?case
  proof (cases "py_lower (action e) = ''ban''")
    case True
    have "\<forall>t \<in> set (q @ [timestamp e]).
            valid_datetime t \<and> (\<forall>e \<in> set es. dt_key t \<le> dt_key (timestamp e))"
      using q ve hd_le by simp
    from Cons.IH [OF srt this ves] show ?thesis
      using True by simp
  next
    case notban: False
    show ?thesis
    proof (cases "py_lower (action e) = ''unban''")
      case True
      show ?thesis
      proof (cases q)
        case Nil
        have "\<forall>t \<in> set ([]::datetime list).
                valid_datetime t \<and> (\<forall>e \<in> set es. dt_key t \<le> dt_key (timestamp e))"
          by simp
        from Cons.IH [OF srt this ves] show ?thesis
          using True notban Nil by simp
      next
        case (Cons t0 later)
        have t0: "valid_datetime t0" "dt_key t0 \<le> dt_key (timestamp e)"
          using q Cons by simp_all
        have d: "0 \<le> seconds_between (timestamp e) t0"
          using t0 ve by (intro seconds_between_nonneg)
        have "\<forall>t \<in> set later.
                valid_datetime t \<and> (\<forall>e \<in> set es. dt_key t \<le> dt_key (timestamp e))"
          using q Cons by simp
        from Cons.IH [OF srt this ves] show ?thesis
          using True notban Cons d by simp
      qed
    next
      case False
      have "\<forall>t \<in> set q. valid_datetime t \<and> (\<forall>e \<in> set es. dt_key t \<le> dt_key (timestamp e))"
        using q by simp
      from Cons.IH [OF srt this ves] show ?thesis
        using False notban by simp
    qed
  qed
qed

text \<open>
  C10. Every recorded block duration is non-negative: the actions are processed in
  ascending timestamp order, so an unban is never earlier than the pending ban it is
  paired with. The timestamps are datetimes, that is, their fields are in range.
\<close>

theorem block_durations_nonnegative:
  assumes valid: "\<forall>e \<in> set actions. valid_datetime (timestamp e)"
  shows "\<forall>(a, ds) \<in> set (compute_block_durations actions). \<forall>d \<in> set ds. 0 \<le> d"
proof (clarify)
  fix a ds d
  assume mem: "(a, ds) \<in> set (compute_block_durations actions)" and d: "d \<in> set ds"
  let ?es = "filter (\<lambda>e. ip e = a) (sort_key (\<lambda>e. dt_key (timestamp e)) actions)"
  have "distinct (map fst (compute_block_durations actions))"
    unfolding compute_block_durations_def by (rule block_loop_distinct) simp
  then have "map_of (compute_block_durations actions) a = Some ds"
    using mem by (rule map_of_is_SomeI)
  then have ds: "ds = fifo_pair [] ?es"
    by (simp add: compute_block_durations_lookup Let_def split: if_splits)
  have srt: "sorted (map (\<lambda>e. dt_key (timestamp e)) ?es)"
    by (intro sorted_filter) simp
  have v: "\<forall>e \<in> set ?es. valid_datetime (timestamp e)"
    using valid by simp
  have "\<forall>t \<in> set ([]::datetime list).
          valid_datetime t \<and> (\<forall>e \<in> set ?es. dt_key t \<le> dt_key (timestamp e))"
    by simp
  from fifo_pair_nonneg [OF srt this v] show "0 \<le> d"
    using d ds by simp
qed

theorem block_durations_nonnegative_witness:
  "list_all (\<lambda>e. valid_datetime (timestamp e))
     [example_event 20 ''A'' ''unban'', example_event 10 ''A'' ''ban'',
      example_event 0 ''A'' ''ban'', example_event 15 ''A'' ''unban'']
   \<and> compute_block_durations
        [example_event 20 ''A'' ''unban'', example_event 10 ''A'' ''ban'',
         example_event 0 ''A'' ''ban'', example_event 15 ''A'' ''unban''] = [(''A'', [15, 10])]
   \<and> list_all (\<lambda>(a, ds). list_all (\<lambda>d. 0 \<le> d) ds)
        (compute_block_durations
           [example_event 20 ''A'' ''unban'', example_event 10 ''A'' ''ban'',
            example_event 0 ''A'' ''ban'', example_event 15 ''A'' ''unban''])"
proof -
  let ?acts = "[example_event 20 ''A'' ''unban'', example_event 10 ''A'' ''ban'',
                example_event 0 ''A'' ''ban'', example_event 15 ''A'' ''unban'']"
  have v: "\<forall>e \<in> set ?acts. valid_datetime (timestamp e)"
    by (simp add: example_event_def example_time_def valid_datetime_def days_in_month_def)
  have c: "compute_block_durations ?acts = [(''A'', [15, 10])]"
    by code_simp
  have n: "list_all (\<lambda>(a, ds). list_all (\<lambda>d. 0 \<le> d) ds) (compute_block_durations ?acts)"
    using block_durations_nonnegative [OF v] by (simp only: list_all_iff)
  have v': "list_all (\<lambda>e. valid_datetime (timestamp e)) ?acts"
    using v by (simp only: list_all_iff)
  show ?thesis
    using v' c n by blast
qed

section \<open>Detection latency\<close>

text \<open>
  C1. The detection latency of an address is meant to be taken from its chronologically
  earliest ban, whatever the order of the actions in the input. The code keeps the first
  ban in input order instead: with the bans of A at 10 s and 5 s listed in that order and
  a first\_ts of 0 s, the latency reported is 10 s, and 5 s when they are listed the
  other way round.
\<close>

theorem detection_time_follows_input_order:
  "compute_detection_times
     [example_event 10 ''A'' ''ban'', example_event 5 ''A'' ''ban'']
     [example_row ''A'' ''malicious'' 0] = [(''A'', 10)]
   \<and> compute_detection_times
     [example_event 5 ''A'' ''ban'', example_event 10 ''A'' ''ban'']
     [example_row ''A'' ''malicious'' 0] = [(''A'', 5)]"
  by code_simp

section \<open>Repeatability\<close>

text \<open>
  C2. The deviation of the detection averages is meant to be left out when fewer than two
  history entries have a non-zero detection count. The code leaves it out only when there
  is no such entry: with a stored run without detections and a new run with one, the
  history has two entries and one detection average, and \<^verbatim>\<open>statistics.stdev\<close> raises
  on it, after the history has been written back.
\<close>

theorem repeatability_single_detection_raises:
  "count (detection_seconds (run_metrics example_quiet_run)) = 0
   \<and> count (detection_seconds (run_metrics example_run)) = 1
   \<and> update_history (Some [example_quiet_run]) example_run
       = ([example_quiet_run, example_run], Inl StatisticsError)"
proof -
  have c0: "count (detection_seconds (run_metrics example_quiet_run)) = 0"
    by code_simp
  have c1: "count (detection_seconds (run_metrics example_run)) = 1"
    by code_simp
  show ?thesis
    by (simp add: update_history_def Let_def c0 c1 stdev_def)
qed

section \<open>Year resolution of syslog timestamps\<close>

lemma datetime_new_Inr:
  "datetime_new y mo d h mi s us = Inr c \<Longrightarrow>
   valid_datetime c \<and> c = \<lparr>year = y, month = mo, day = d, hour = h, minute = mi,
                            second = s, microsecond = us\<rparr>"
  by (auto simp: datetime_new_def Let_def split: if_splits)

lemma build_candidate_valid:
  "build_candidate int_of line current_year = Inr c \<Longrightarrow> valid_datetime c \<and> year c = current_year"
  by (auto simp: build_candidate_def split: option.splits sum.splits dest!: datetime_new_Inr)

lemma build_candidate_month:
  "map_of SYSLOG_MONTHS (slice 0 3 line) = None \<Longrightarrow> build_candidate int_of line current_year = Inl ValueError"
  by (simp add: build_candidate_def)

lemma replace_year_eq:
  "valid_datetime c \<Longrightarrow>
   replace_year c y =
     (if 1 \<le> y \<and> y \<le> 9999 \<and> day c \<le> days_in_month y (month c)
      then Inr (c\<lparr>year := y\<rparr>) else Inl ValueError)"
  by (auto simp: replace_year_def datetime_new_def valid_datetime_def Let_def)

lemma days_in_month_January: "days_in_month y 1 = 31"
  by (simp add: days_in_month_def)

text \<open>
  C5, as stated, fails where the year cannot be replaced: the candidate 29 February 2024
  is not before a rollover, its year is less than the previous timestamp's year 2025,
  and there is no 29 February 2025, so \<^verbatim>\<open>replace\<close> raises and there is no result.
\<close>

theorem stale_year_leap_day_counterexample:
  "build_candidate py_int ''Feb 29 10:00:00 host sshd[1]: Failed password'' 2024
     = Inr \<lparr>year = 2024, month = 2, day = 29, hour = 10, minute = 0, second = 0,
             microsecond = 0\<rparr>
   \<and> parse_syslog_timestamp py_int ''Feb 29 10:00:00 host sshd[1]: Failed password'' 2024
       (Some \<lparr>year = 2025, month = 3, day = 1, hour = 0, minute = 0, second = 0,
               microsecond = 0\<rparr>)
     = Inl ValueError"
  by code_simp

lemma build_candidate_Inr:
  "build_candidate int_of line current_year = Inr c \<Longrightarrow>
   year c = current_year \<and> microsecond c = 0 \<and> valid_datetime c
   \<and> map_of SYSLOG_MONTHS (slice 0 3 line) = Some (month c)
   \<and> int_of (slice 4 6 line) = Inr (day c)
   \<and> strptime_HMS (slice 7 15 line) = Inr (hour c, minute c, second c)"
  by (auto simp: build_candidate_def split: option.splits sum.splits dest!: datetime_new_Inr)

lemma build_candidate_built:
  "map_of SYSLOG_MONTHS (slice 0 3 line) = Some m \<Longrightarrow> int_of (slice 4 6 line) = Inr d
   \<Longrightarrow> strptime_HMS (slice 7 15 line) = Inr (h, mi, sec)
   \<Longrightarrow> build_candidate int_of line current_year = datetime_new current_year m d h mi sec 0"
  by (simp add: build_candidate_def)
lemma year_rules_core:
  "(build_candidate int_of line current_year = Inr c \<longrightarrow>
      parse_syslog_timestamp int_of line current_year (Some prev) =
        (if dt_less c prev \<and> month c = 1 \<and> month prev = 12
         then (if 0 \<le> year prev \<and> year prev \<le> 9998
               then Inr (c\<lparr>year := year prev + 1\<rparr>) else Inl ValueError)
         else if year c < year prev
         then (if year prev \<le> 9999 \<and> day c \<le> days_in_month (year prev) (month c)
               then Inr (c\<lparr>year := year prev\<rparr>) else Inl ValueError)
         else Inr c)
      \<and> parse_syslog_timestamp int_of line current_year None = Inr c)
   \<and> (map_of SYSLOG_MONTHS (slice 0 3 line) = None \<longrightarrow>
        parse_syslog_timestamp int_of line current_year previous = Inl ValueError)"
proof (intro conjI impI)
  assume b: "build_candidate int_of line current_year = Inr c"
  have v: "valid_datetime c" using build_candidate_valid [OF b] by simp
  have y1: "1 \<le> year c" and d: "day c \<le> days_in_month (year c) (month c)"
    using v by (simp_all add: valid_datetime_def)
  show "parse_syslog_timestamp int_of line current_year (Some prev) =
        (if dt_less c prev \<and> month c = 1 \<and> month prev = 12
         then (if 0 \<le> year prev \<and> year prev \<le> 9998
               then Inr (c\<lparr>year := year prev + 1\<rparr>) else Inl ValueError)
         else if year c < year prev
         then (if year prev \<le> 9999 \<and> day c \<le> days_in_month (year prev) (month c)
               then Inr (c\<lparr>year := year prev\<rparr>) else Inl ValueError)
         else Inr c)"
  proof (cases "dt_less c prev \<and> month c = 1 \<and> month prev = 12")
    case True
    then have m: "month c = 1" by simp
    have "day c \<le> days_in_month (year prev + 1) (month c)"
      using d m by (simp add: days_in_month_January)
    then show ?thesis
      using True by (simp add: parse_syslog_timestamp_def b replace_year_eq [OF v])
  next
    case False
    then show ?thesis
      using y1 by (auto simp: parse_syslog_timestamp_def b replace_year_eq [OF v])
  qed
  show "parse_syslog_timestamp int_of line current_year None = Inr c"
    by (simp add: parse_syslog_timestamp_def b)
next
  assume "map_of SYSLOG_MONTHS (slice 0 3 line) = None"
  then show "parse_syslog_timestamp int_of line current_year previous = Inl ValueError"
    by (simp add: parse_syslog_timestamp_def build_candidate_month)
qed

text \<open>
  C5, amended. The candidate is built when the month abbreviation is in the table and
  \<^verbatim>\<open>int\<close>, \<^verbatim>\<open>strptime\<close> and the \<^verbatim>\<open>datetime\<close> constructor accept the day, the
  time and the date; it then has the year \<^verbatim>\<open>current_year\<close> and the month, day and
  time of the line. When it is built and a previous timestamp is given: if the candidate
  is before the previous timestamp, its month is January and the previous month is
  December, the result is the candidate with the year after the previous one, or an
  error if that year is beyond 9999; otherwise, if the candidate's year is less than the
  previous year, the result is the candidate with the previous year, or an error if the
  candidate's day does not exist in that year; otherwise the candidate is returned
  unchanged, as it is when there is no previous timestamp. An unrecognized month
  abbreviation is an error.
\<close>

theorem parse_syslog_timestamp_year_rules:
  "(build_candidate int_of line current_year = Inr c \<longrightarrow>
      parse_syslog_timestamp int_of line current_year (Some prev) =
        (if dt_less c prev \<and> month c = 1 \<and> month prev = 12
         then (if 0 \<le> year prev \<and> year prev \<le> 9998
               then Inr (c\<lparr>year := year prev + 1\<rparr>) else Inl ValueError)
         else if year c < year prev
         then (if year prev \<le> 9999 \<and> day c \<le> days_in_month (year prev) (month c)
               then Inr (c\<lparr>year := year prev\<rparr>) else Inl ValueError)
         else Inr c)
      \<and> parse_syslog_timestamp int_of line current_year None = Inr c)
   \<and> (map_of SYSLOG_MONTHS (slice 0 3 line) = None \<longrightarrow>
        parse_syslog_timestamp int_of line current_year previous = Inl ValueError)
   \<and> (build_candidate int_of line current_year = Inr c \<longrightarrow>
        year c = current_year \<and> microsecond c = 0 \<and> valid_datetime c
        \<and> map_of SYSLOG_MONTHS (slice 0 3 line) = Some (month c)
        \<and> int_of (slice 4 6 line) = Inr (day c)
        \<and> strptime_HMS (slice 7 15 line) = Inr (hour c, minute c, second c))
   \<and> (map_of SYSLOG_MONTHS (slice 0 3 line) = Some m \<and> int_of (slice 4 6 line) = Inr d
        \<and> strptime_HMS (slice 7 15 line) = Inr (h, mi, sec) \<longrightarrow>
        build_candidate int_of line current_year = datetime_new current_year m d h mi sec 0)"
proof -
  note core = year_rules_core [of int_of line current_year c prev previous]
  have built: "build_candidate int_of line current_year = Inr c \<longrightarrow>
        year c = current_year \<and> microsecond c = 0 \<and> valid_datetime c
        \<and> map_of SYSLOG_MONTHS (slice 0 3 line) = Some (month c)
        \<and> int_of (slice 4 6 line) = Inr (day c)
        \<and> strptime_HMS (slice 7 15 line) = Inr (hour c, minute c, second c)"
    by (rule impI) (rule build_candidate_Inr)
  have parts: "map_of SYSLOG_MONTHS (slice 0 3 line) = Some m
        \<and> int_of (slice 4 6 line) = Inr d
        \<and> strptime_HMS (slice 7 15 line) = Inr (h, mi, sec) \<longrightarrow>
        build_candidate int_of line current_year = datetime_new current_year m d h mi sec 0"
  proof (rule impI, elim conjE)
    assume "map_of SYSLOG_MONTHS (slice 0 3 line) = Some m" "int_of (slice 4 6 line) = Inr d"
      "strptime_HMS (slice 7 15 line) = Inr (h, mi, sec)"
    then show "build_candidate int_of line current_year = datetime_new current_year m d h mi sec 0"
      by (rule build_candidate_built)
  qed
  show ?thesis
    by (rule conjI [OF conjunct1 [OF core] conjI [OF conjunct2 [OF core] conjI [OF built parts]]])
qed

theorem parse_syslog_timestamp_year_rules_witness:
  "parse_syslog_timestamp py_int ''Jan 01 00:00:01 host sshd[1]: x'' 2024
       (Some \<lparr>year = 2024, month = 12, day = 31, hour = 23, minute = 59, second = 59,
               microsecond = 0\<rparr>)
     = Inr \<lparr>year = 2025, month = 1, day = 1, hour = 0, minute = 0, second = 1,
             microsecond = 0\<rparr>
   \<and> parse_syslog_timestamp py_int ''Jan 03 00:00:01 host sshd[1]: x'' 2023
       (Some \<lparr>year = 2024, month = 1, day = 5, hour = 0, minute = 0, second = 0,
               microsecond = 0\<rparr>)
     = Inr \<lparr>year = 2024, month = 1, day = 3, hour = 0, minute = 0, second = 1,
             microsecond = 0\<rparr>
   \<and> parse_syslog_timestamp py_int ''Foo 01 00:00:01 host sshd[1]: x'' 2024 None = Inl ValueError"
proof -
  let ?prev = "\<lparr>year = 2024, month = 12, day = 31, hour = 23, minute = 59, second = 59,
                 microsecond = 0\<rparr>"
  let ?c = "\<lparr>year = 2024, month = 1, day = 1, hour = 0, minute = 0, second = 1,
              microsecond = 0\<rparr>"
  let ?prev2 = "\<lparr>year = 2024, month = 1, day = 5, hour = 0, minute = 0, second = 0,
                 microsecond = 0\<rparr>"
  let ?c2 = "\<lparr>year = 2023, month = 1, day = 3, hour = 0, minute = 0, second = 1,
              microsecond = 0\<rparr>"
  have b: "build_candidate py_int ''Jan 01 00:00:01 host sshd[1]: x'' 2024 = Inr ?c"
    by code_simp
  have b2: "build_candidate py_int ''Jan 03 00:00:01 host sshd[1]: x'' 2023 = Inr ?c2"
    by code_simp
  have m: "map_of SYSLOG_MONTHS (slice 0 3 ''Foo 01 00:00:01 host sshd[1]: x'') = None"
    by code_simp
  have l: "dt_less ?c ?prev"
    by (simp add: dt_less_def dt_key_def)
  have d: "days_in_month 2024 1 = 31"
    by (simp add: days_in_month_def)
  note t1 = parse_syslog_timestamp_year_rules
              [of py_int "''Jan 01 00:00:01 host sshd[1]: x''" 2024 ?c ?prev None]
  note t2 = parse_syslog_timestamp_year_rules
              [of py_int "''Jan 03 00:00:01 host sshd[1]: x''" 2023 ?c2 ?prev2 None]
  note t3 = parse_syslog_timestamp_year_rules
              [of py_int "''Foo 01 00:00:01 host sshd[1]: x''" 2024 ?c ?prev None]
  have 1: "parse_syslog_timestamp py_int ''Jan 01 00:00:01 host sshd[1]: x'' 2024 (Some ?prev)
           = Inr \<lparr>year = 2025, month = 1, day = 1, hour = 0, minute = 0, second = 1,
                   microsecond = 0\<rparr>"
    using conjunct1 [OF conjunct1 [OF t1, rule_format, OF b]] l by simp
  have 2: "parse_syslog_timestamp py_int ''Jan 03 00:00:01 host sshd[1]: x'' 2023 (Some ?prev2)
           = Inr \<lparr>year = 2024, month = 1, day = 3, hour = 0, minute = 0, second = 1,
                   microsecond = 0\<rparr>"
    using conjunct1 [OF conjunct1 [OF t2, rule_format, OF b2]] d by simp
  have 3: "parse_syslog_timestamp py_int ''Foo 01 00:00:01 host sshd[1]: x'' 2024 None
           = Inl ValueError"
    using conjunct1 [OF conjunct2 [OF t3], rule_format, OF m] .
  show ?thesis
    using 1 2 3 by blast
qed

section \<open>The replay pacer\<close>





lemma processed_le: "processed n max_lines ls \<le> length ls"
  by (induction ls arbitrary: n) (auto split: option.splits)














section \<open>The action log loader\<close>

lemma load_event_malformed:
  "json_loads line = Inl e \<Longrightarrow> load_event json_loads strptime line = Inl e"
  by (simp add: load_event_def)

lemma load_event_Inr:
  assumes "load_event json_loads strptime line = Inr ev"
  shows "loaded_from json_loads strptime line ev"
proof -
  obtain payload where p: "json_loads line = Inr payload"
    using assms by (cases "json_loads line") (simp_all add: load_event_def)
  obtain kvs where k: "payload = JObj kvs"
    using assms p by (cases payload) (simp_all add: load_event_def)
  show ?thesis
    using assms
    by (auto simp: load_event_def loaded_from_def time_field_def p k
             split: sum.splits option.splits if_splits)
qed

lemma load_event_missing:
  assumes p: "json_loads line = Inr payload"
    and m: "\<not> has_key payload ''ip''
            \<or> (\<not> has_key payload ''timestamp'' \<and> \<not> has_key payload ''ts'')"
  shows "\<exists>e. load_event json_loads strptime line = Inl e"
proof (cases "load_event json_loads strptime line")
  case (Inl e)
  then show ?thesis by blast
next
  case (Inr ev)
  from load_event_Inr [OF Inr] m p show ?thesis
    by (auto simp: loaded_from_def has_key_def time_field_def split: json.splits option.splits if_splits)
qed

lemma load_actions_loop_fails:
  "line \<in> set lns \<Longrightarrow> strip line \<noteq> [] \<Longrightarrow> load_event json_loads strptime line = Inl e
   \<Longrightarrow> \<exists>e'. load_actions_loop json_loads strptime strip lns events = Inl e'"
proof (induction lns arbitrary: events)
  case Nil
  then show ?case by simp
next
  case (Cons l ls)
  show ?case
  proof (cases "strip l = []")
    case True
    then have "line \<in> set ls" using Cons.prems by auto
    from Cons.IH [OF this Cons.prems(2,3)] show ?thesis using True by simp
  next
    case False
    show ?thesis
    proof (cases "load_event json_loads strptime l")
      case (Inl e0)
      then show ?thesis using False by simp
    next
      case (Inr ev)
      then have "line \<in> set ls" using Cons.prems by auto
      from Cons.IH [OF this Cons.prems(2,3)] show ?thesis using False Inr by simp
    qed
  qed
qed

lemma load_actions_loop_filter:
  "load_actions_loop json_loads strptime strip (filter (\<lambda>l. strip l \<noteq> []) lns) events
   = load_actions_loop json_loads strptime strip lns events"
  by (induction lns arbitrary: events) (auto split: sum.splits)

lemma load_actions_loop_Inr:
  "load_actions_loop json_loads strptime strip lns events = Inr out
   \<Longrightarrow> \<exists>new. out = events @ new
         \<and> list_all2 (loaded_from json_loads strptime) (filter (\<lambda>l. strip l \<noteq> []) lns) new"
proof (induction lns arbitrary: events)
  case Nil
  then show ?case by simp
next
  case (Cons l ls)
  show ?case
  proof (cases "strip l = []")
    case True
    then show ?thesis using Cons by simp
  next
    case False
    then obtain ev where ev: "load_event json_loads strptime l = Inr ev"
      and rest: "load_actions_loop json_loads strptime strip ls (events @ [ev]) = Inr out"
      using Cons.prems by (auto split: sum.splits)
    from Cons.IH [OF rest] obtain new where
      "out = (events @ [ev]) @ new"
      "list_all2 (loaded_from json_loads strptime) (filter (\<lambda>l. strip l \<noteq> []) ls) new"
      by blast
    then have "out = events @ (ev # new)
      \<and> list_all2 (loaded_from json_loads strptime) (filter (\<lambda>l. strip l \<noteq> []) (l # ls)) (ev # new)"
      using False load_event_Inr [OF ev] by simp
    then show ?thesis by blast
  qed
qed

text \<open>
  C7. A line is blank when \<^verbatim>\<open>line.strip()\<close> is empty. Loading fails with an error
  as soon as some non-blank line is malformed JSON, or lacks the ip key, or lacks both
  the timestamp and the ts key; blank lines make no difference; and when loading
  succeeds there is one event per non-blank line, in order, built from that line: none
  is skipped. A missing action is ban, a missing jail is
  ssh-proxmox, a missing reason is \<^verbatim>\<open>None\<close>.
\<close>

theorem load_actions_strict:
  "(line \<in> set lns \<and> strip line \<noteq> []
      \<and> (json_loads line = Inl e
          \<or> (json_loads line = Inr payload
              \<and> (\<not> has_key payload ''ip''
                  \<or> (\<not> has_key payload ''timestamp'' \<and> \<not> has_key payload ''ts''))))
      \<longrightarrow> (\<exists>e'. load_actions json_loads strptime strip lns = Inl e'))
   \<and> load_actions json_loads strptime strip (filter (\<lambda>l. strip l \<noteq> []) lns)
       = load_actions json_loads strptime strip lns
   \<and> (load_actions json_loads strptime strip lns = Inr events
      \<longrightarrow> list_all2 (loaded_from json_loads strptime)
            (filter (\<lambda>l. strip l \<noteq> []) lns) events)"
proof (intro conjI impI)
  assume a: "line \<in> set lns \<and> strip line \<noteq> []
      \<and> (json_loads line = Inl e
          \<or> (json_loads line = Inr payload
              \<and> (\<not> has_key payload ''ip''
                  \<or> (\<not> has_key payload ''timestamp'' \<and> \<not> has_key payload ''ts''))))"
  then have "\<exists>e0. load_event json_loads strptime line = Inl e0"
    using load_event_malformed [of json_loads line e strptime]
          load_event_missing [of json_loads line payload strptime]
    by blast
  then obtain e0 where "load_event json_loads strptime line = Inl e0" ..
  with a show "\<exists>e'. load_actions json_loads strptime strip lns = Inl e'"
    unfolding load_actions_def by (intro load_actions_loop_fails) simp_all
next
  show "load_actions json_loads strptime strip (filter (\<lambda>l. strip l \<noteq> []) lns)
       = load_actions json_loads strptime strip lns"
    by (simp add: load_actions_def load_actions_loop_filter)
next
  assume "load_actions json_loads strptime strip lns = Inr events"
  then show "list_all2 (loaded_from json_loads strptime)
            (filter (\<lambda>l. strip l \<noteq> []) lns) events"
    using load_actions_loop_Inr [of json_loads strptime strip lns "[]" events]
    by (simp add: load_actions_def)
qed

theorem load_actions_strict_witness:
  "(\<exists>e'. load_actions example_json_loads example_strptime py_strip
            [''full\<newline>'', ''no-ip\<newline>'', ''bare\<newline>''] = Inl e')
   \<and> (\<exists>e'. load_actions example_json_loads example_strptime py_strip
            [''full\<newline>'', ''garbage\<newline>'', ''bare\<newline>''] = Inl e')
   \<and> load_actions example_json_loads example_strptime py_strip
         [''full\<newline>'', [CHR 0xA0, CHR 0x0A], ''bare\<newline>'']
       = Inr [\<lparr>loaded_timestamp = example_time 5, loaded_ip = JStr ''10.0.0.1'',
                loaded_action = JStr ''unban'', loaded_jail = JStr ''sshd'',
                loaded_reason = JStr ''matches''\<rparr>,
              \<lparr>loaded_timestamp = example_time 5, loaded_ip = JStr ''10.0.0.2'',
                loaded_action = JStr ''ban'', loaded_jail = JStr ''ssh-proxmox'',
                loaded_reason = JNull\<rparr>]
   \<and> list_all2 (loaded_from example_json_loads example_strptime)
         (filter (\<lambda>l. py_strip l \<noteq> []) [''full\<newline>'', [CHR 0xA0, CHR 0x0A], ''bare\<newline>''])
         [\<lparr>loaded_timestamp = example_time 5, loaded_ip = JStr ''10.0.0.1'',
            loaded_action = JStr ''unban'', loaded_jail = JStr ''sshd'',
            loaded_reason = JStr ''matches''\<rparr>,
          \<lparr>loaded_timestamp = example_time 5, loaded_ip = JStr ''10.0.0.2'',
            loaded_action = JStr ''ban'', loaded_jail = JStr ''ssh-proxmox'',
            loaded_reason = JNull\<rparr>]"
proof -
  let ?bad = "[''full\<newline>'', ''no-ip\<newline>'', ''bare\<newline>'']"
  let ?worse = "[''full\<newline>'', ''garbage\<newline>'', ''bare\<newline>'']"
  let ?good = "[''full\<newline>'', [CHR 0xA0, CHR 0x0A], ''bare\<newline>'']"
  let ?p = "JObj [(''timestamp'', JStr ''2024-01-01T00:00:05Z'')]"
  let ?evs = "[\<lparr>loaded_timestamp = example_time 5, loaded_ip = JStr ''10.0.0.1'',
                 loaded_action = JStr ''unban'', loaded_jail = JStr ''sshd'',
                 loaded_reason = JStr ''matches''\<rparr>,
               \<lparr>loaded_timestamp = example_time 5, loaded_ip = JStr ''10.0.0.2'',
                 loaded_action = JStr ''ban'', loaded_jail = JStr ''ssh-proxmox'',
                 loaded_reason = JNull\<rparr>]"
  have b1: "''no-ip\<newline>'' \<in> set ?bad" by simp
  have b2: "py_strip ''no-ip\<newline>'' \<noteq> []" by code_simp
  have b3: "example_json_loads ''no-ip\<newline>'' = Inr ?p" by code_simp
  have b4: "\<not> has_key ?p ''ip''" by code_simp
  have w1: "''garbage\<newline>'' \<in> set ?worse" by simp
  have w2: "py_strip ''garbage\<newline>'' \<noteq> []" by code_simp
  have w3: "example_json_loads ''garbage\<newline>'' = Inl JSONDecodeError" by code_simp
  have g: "load_actions example_json_loads example_strptime py_strip ?good = Inr ?evs"
    by code_simp
  have 1: "\<exists>e'. load_actions example_json_loads example_strptime py_strip ?bad = Inl e'"
    using load_actions_strict
            [of "''no-ip\<newline>''" ?bad py_strip example_json_loads JSONDecodeError ?p
               example_strptime "[]"]
          b1 b2 b3 b4
    by blast
  have 2: "\<exists>e'. load_actions example_json_loads example_strptime py_strip ?worse = Inl e'"
    using load_actions_strict
            [of "''garbage\<newline>''" ?worse py_strip example_json_loads JSONDecodeError ?p
               example_strptime "[]"]
          w1 w2 w3
    by blast
  have 3: "list_all2 (loaded_from example_json_loads example_strptime)
             (filter (\<lambda>l. py_strip l \<noteq> []) ?good) ?evs"
    using load_actions_strict
            [of "''no-ip\<newline>''" ?good py_strip example_json_loads JSONDecodeError ?p
               example_strptime ?evs]
          g
    by blast
  show ?thesis
    using 1 2 g 3 by blast
qed


end
